theory Spec2Isabelle
  imports Main "HOL-Library.Word"
begin

unbundle bit_operations_syntax

section \<open>The token model\<close>

text \<open>
  \<^verbatim>\<open>type Pos int\<close>: a byte offset into the input. Go's \<^verbatim>\<open>int\<close> is 64 bits wide. The
  only arithmetic on positions is adding or subtracting the width of one rune, at most
  four bytes, at a position of the input, so nothing can wrap and \<open>int\<close> is an exact
  model.
\<close>

type_synonym Pos = int

text \<open>
  Modelled from the spec: the token kind \<^verbatim>\<open>tokenBool\<close> of boolean literals, the last
  constructor below. \<^verbatim>\<open>newLiteral\<close> of package \<^verbatim>\<open>v1\<close> switches on it, but the
  declaration of that package's token kinds is not among the sources; the spec lists
  the literal kinds as float, integer, string and boolean name. All other constructors
  are the token kinds of the \<^verbatim>\<open>iota\<close> block of the lexer, in its order.
\<close>

datatype itemType =
    tokenAdd | tokenAssign | tokenColon | tokenComma | tokenDiv | tokenDot | tokenEq
  | tokenFloordiv | tokenGt | tokenGteq | tokenLbrace | tokenLbracket | tokenLparen
  | tokenLt | tokenLteq | tokenMod | tokenMul | tokenNe | tokenPipe | tokenPow
  | tokenRbrace | tokenRbracket | tokenRparen | tokenSemicolon | tokenSub | tokenTilde
  | tokenWhitespace | tokenFloat | tokenInteger | tokenName | tokenString | tokenOperator
  | tokenBlockBegin | tokenBlockEnd | tokenVariableBegin | tokenVariableEnd
  | tokenRawBegin | tokenRawEnd | tokenCommentBegin | tokenCommentEnd | tokenComment
  | tokenLinestatementBegin | tokenLinestatementEnd | tokenLinecommentBegin
  | tokenLinecommentEnd | tokenLinecomment | tokenText | tokenInitial | tokenEOF
  | tokenError | tokenBool

text \<open>
  \<^verbatim>\<open>type item struct { typ itemType; pos Pos; val string }\<close>. The fields are
  named \<open>ityp\<close>, \<open>ipos\<close>, \<open>ival\<close> here: the lexer has a field \<open>pos\<close> of its own.
\<close>

record item =
  ityp :: itemType
  ipos :: Pos
  ival :: string

section \<open>Runtime panics\<close>

text \<open>
  Every way in which the modelled code can panic is a value of this type: a slice
  expression out of range, a method call through a nil interface or a field read
  through a nil pointer, a failed type assertion, and the two explicit \<^verbatim>\<open>panic\<close>
  calls of \<^verbatim>\<open>newLiteral\<close>.
\<close>

datatype strconvErr = ErrSyntax | ErrRange

datatype panic =
    SliceBoundsOutOfRange
  | NilPointerDereference
  | TypeAssertionFailed
  | NumError string string strconvErr
  | UnexpectedLiteralType itemType

section \<open>Decoding one rune (\<^verbatim>\<open>unicode/utf8\<close>)\<close>

text \<open>
  \<^verbatim>\<open>lexer.next\<close> calls \<^verbatim>\<open>utf8.DecodeRuneInString\<close> of the Go standard library. It is
  modelled here from the library's source: the table \<^verbatim>\<open>first\<close> classifies the leading
  byte (\<^verbatim>\<open>as\<close> for ASCII, \<^verbatim>\<open>xx\<close> for an invalid byte, otherwise the low three bits give
  the length of the sequence and the high four bits select the range accepted for the
  second byte).
\<close>

definition RuneError :: int where
  "RuneError = 0xFFFD"

definition first_tab :: "int \<Rightarrow> int" where
  "first_tab b =
     (if b < 0x80 then 0xF0
      else if b < 0xC2 then 0xF1
      else if b < 0xE0 then 0x02
      else if b = 0xE0 then 0x13
      else if b < 0xED then 0x03
      else if b = 0xED then 0x23
      else if b < 0xF0 then 0x03
      else if b = 0xF0 then 0x34
      else if b < 0xF4 then 0x04
      else if b = 0xF4 then 0x44
      else 0xF1)"

definition acceptRanges :: "int \<Rightarrow> int \<times> int" where
  "acceptRanges i =
     (if i = 0 then (0x80, 0xBF)
      else if i = 1 then (0xA0, 0xBF)
      else if i = 2 then (0x80, 0x9F)
      else if i = 3 then (0x90, 0xBF)
      else if i = 4 then (0x80, 0x8F)
      else (0, 0))"

definition byte_at :: "string \<Rightarrow> nat \<Rightarrow> int" where
  "byte_at s i = of_char (s ! i)"

text \<open>
  The result is the rune and its width in bytes. In the ASCII/invalid branch the
  library builds \<^verbatim>\<open>mask := rune(x) << 31 >> 31\<close> on 32-bit integers, which is \<open>0\<close>
  when \<open>x\<close> is even and \<open>-1\<close> (all ones) when it is odd.
\<close>

definition DecodeRuneInString :: "string \<Rightarrow> int \<times> int" where
  "DecodeRuneInString s =
     (let n = int (length s) in
      if n < 1 then (RuneError, 0)
      else
        let s0 = byte_at s 0; x = first_tab s0 in
        if x \<ge> 0xF0 then
          (let mask = (if odd x then -1 else 0 :: int)
           in ((s0 AND NOT mask) OR (RuneError AND mask), 1))
        else
          let sz = x AND 7; (lo, hi) = acceptRanges (drop_bit 4 x) in
          if n < sz then (RuneError, 1)
          else
            let s1 = byte_at s 1 in
            if s1 < lo \<or> hi < s1 then (RuneError, 1)
            else if sz \<le> 2 then (push_bit 6 (s0 AND 0x1F) OR (s1 AND 0x3F), 2)
            else
              let s2 = byte_at s 2 in
              if s2 < 0x80 \<or> 0xBF < s2 then (RuneError, 1)
              else if sz \<le> 3 then
                (push_bit 12 (s0 AND 0x0F) OR push_bit 6 (s1 AND 0x3F) OR (s2 AND 0x3F), 3)
              else
                let s3 = byte_at s 3 in
                if s3 < 0x80 \<or> 0xBF < s3 then (RuneError, 1)
                else
                  (push_bit 18 (s0 AND 0x07) OR push_bit 12 (s1 AND 0x3F)
                     OR push_bit 6 (s2 AND 0x3F) OR (s3 AND 0x3F), 4))"

section \<open>The lexer\<close>

text \<open>
  The only state function of the source is \<^verbatim>\<open>lexText\<close>; a \<^verbatim>\<open>stateFn\<close> value is
  therefore one constructor, and the nil state is \<open>None\<close>.
\<close>

datatype stateFn = LexText

record lexerCfg =
  BlockStartString :: string
  BlockEndString :: string
  VariableStartString :: string
  VariableEndString :: string
  CommentStartString :: string
  CommentEndString :: string

text \<open>
  \<^verbatim>\<open>type lexer struct\<close>, which embeds \<^verbatim>\<open>lexerCfg\<close>. The channel \<^verbatim>\<open>items\<close> is the
  sequence of items sent so far, in sending order.
\<close>

record lexer = lexerCfg +
  name :: string
  filename :: string
  input :: string
  leftDelim :: string
  rightDelim :: string
  state :: "stateFn option"
  pos :: Pos
  start :: Pos
  width :: Pos
  lastPos :: Pos
  items :: "item list"

definition eof :: int where
  "eof = -1"

text \<open>\<^verbatim>\<open>strings.HasPrefix(s, prefix)\<close>.\<close>

definition HasPrefix :: "string \<Rightarrow> string \<Rightarrow> bool" where
  "HasPrefix s p = (length p \<le> length s \<and> take (length p) s = p)"

text \<open>\<^verbatim>\<open>s[lo:hi]\<close> for \<open>0 \<le> lo \<le> hi \<le> len(s)\<close>; the callers check the bounds.\<close>

definition slice :: "string \<Rightarrow> int \<Rightarrow> int \<Rightarrow> string" where
  "slice s lo hi = take (nat (hi - lo)) (drop (nat lo) s)"

text \<open>
  \<^verbatim>\<open>lexer.next\<close>. Past the end of the input it returns \<open>eof\<close>; before it, the slice
  \<^verbatim>\<open>l.input[l.pos:]\<close> panics on a negative position.
\<close>

definition "next" :: "lexer \<Rightarrow> panic + (int \<times> lexer)" where
  "next l =
     (if pos l \<ge> int (length (input l)) then Inr (eof, l\<lparr>width := 0\<rparr>)
      else if pos l < 0 then Inl SliceBoundsOutOfRange
      else
        let (r, w) = DecodeRuneInString (drop (nat (pos l)) (input l));
            l1 = l\<lparr>width := w\<rparr>;
            l2 = l1\<lparr>pos := pos l1 + width l1\<rparr>
        in Inr (r, l2))"

text \<open>\<^verbatim>\<open>lexer.backup\<close>.\<close>

definition backup :: "lexer \<Rightarrow> lexer" where
  "backup l = l\<lparr>pos := pos l - width l\<rparr>"

text \<open>\<^verbatim>\<open>lexer.peek\<close>.\<close>

definition peek :: "lexer \<Rightarrow> panic + (int \<times> lexer)" where
  "peek l = (case next l of Inl e \<Rightarrow> Inl e | Inr (r, l') \<Rightarrow> Inr (r, backup l'))"

text \<open>
  \<^verbatim>\<open>lexer.emit\<close>: the slice \<^verbatim>\<open>l.input[l.start:l.pos]\<close> panics unless
  \<open>0 \<le> start \<le> pos \<le> len(input)\<close>.
\<close>

definition emit :: "lexer \<Rightarrow> itemType \<Rightarrow> panic + lexer" where
  "emit l t =
     (if 0 \<le> start l \<and> start l \<le> pos l \<and> pos l \<le> int (length (input l)) then
        Inr (l\<lparr>items := items l @ [\<lparr>ityp = t, ipos = start l, ival = slice (input l) (start l) (pos l)\<rparr>],
               start := pos l\<rparr>)
      else Inl SliceBoundsOutOfRange)"

text \<open>\<^verbatim>\<open>lexer.ignore\<close>.\<close>

definition ignore :: "lexer \<Rightarrow> lexer" where
  "ignore l = l\<lparr>start := pos l\<rparr>"

text \<open>
  \<^verbatim>\<open>lexer.errorf\<close>. The argument \<open>msg\<close> is the result of
  \<^verbatim>\<open>fmt.Sprintf(format, args...)\<close>; the function sends one error item and returns the
  nil state.
\<close>

definition errorf :: "lexer \<Rightarrow> string \<Rightarrow> stateFn option \<times> lexer" where
  "errorf l msg =
     (None, l\<lparr>items := items l @ [\<lparr>ityp = tokenError, ipos = start l, ival = msg\<rparr>]\<rparr>)"

text \<open>The code of \<^verbatim>\<open>lexText\<close> after its loop: the input is exhausted.\<close>

definition lexText_eof :: "lexer \<Rightarrow> panic + (stateFn option \<times> lexer)" where
  "lexText_eof l =
     (case (if pos l > start l then emit l tokenText else Inr l) of
        Inl e \<Rightarrow> Inl e
      | Inr l1 \<Rightarrow>
          (case emit l1 tokenEOF of
             Inl e \<Rightarrow> Inl e
           | Inr l2 \<Rightarrow> Inr (None, l2)))"

subsection \<open>Facts about decoding and \<open>next\<close>\<close>

text \<open>
  A decoded rune is never negative, so it is never \<open>eof\<close>, and on a non-empty string
  the width is at least one byte and at most the length of the string.
\<close>

lemma first_tab_cases:
  "first_tab b \<in> {0xF0, 0xF1, 0x02, 0x13, 0x03, 0x23, 0x34, 0x04, 0x44}"
  by (simp add: first_tab_def)

lemma byte_at_nonneg: "0 \<le> byte_at s i"
  unfolding byte_at_def by (metis of_nat_of_char of_nat_0_le_iff)

lemma DecodeRuneInString_width:
  assumes "s \<noteq> []"
  shows "1 \<le> snd (DecodeRuneInString s) \<and> snd (DecodeRuneInString s) \<le> int (length s)"
proof -
  let ?x = "first_tab (byte_at s 0)"
  have n: "\<not> int (length s) < 1" "1 \<le> int (length s)"
    using assms by (cases s; simp)+
  have "?x = 0xF0 \<or> ?x = 0xF1 \<or> ?x = 0x02 \<or> ?x = 0x13 \<or> ?x = 0x03 \<or> ?x = 0x23
        \<or> ?x = 0x34 \<or> ?x = 0x04 \<or> ?x = 0x44"
    using first_tab_cases [of "byte_at s 0"] by simp
  then show ?thesis
    using n
    by (elim disjE) (simp_all add: DecodeRuneInString_def Let_def acceptRanges_def)
qed

lemma DecodeRuneInString_rune: "0 \<le> fst (DecodeRuneInString s)"
proof -
  let ?x = "first_tab (byte_at s 0)"
  have "?x = 0xF0 \<or> ?x = 0xF1 \<or> ?x = 0x02 \<or> ?x = 0x13 \<or> ?x = 0x03 \<or> ?x = 0x23
        \<or> ?x = 0x34 \<or> ?x = 0x04 \<or> ?x = 0x44"
    using first_tab_cases [of "byte_at s 0"] by simp
  then show ?thesis
    by (elim disjE)
      (simp_all add: DecodeRuneInString_def Let_def acceptRanges_def RuneError_def byte_at_nonneg)
qed

lemma next_eof:
  "int (length (input l)) \<le> pos l \<Longrightarrow> next l = Inr (eof, l\<lparr>width := 0\<rparr>)"
  by (simp add: next_def)

lemma next_in_bounds:
  assumes "0 \<le> pos l" "pos l < int (length (input l))"
  shows "\<exists>r w. next l = Inr (r, l\<lparr>width := w, pos := pos l + w\<rparr>) \<and> r \<noteq> eof
           \<and> 1 \<le> w \<and> pos l + w \<le> int (length (input l))"
proof -
  let ?s = "drop (nat (pos l)) (input l)"
  obtain r w where d: "DecodeRuneInString ?s = (r, w)"
    by (cases "DecodeRuneInString ?s")
  have ne: "?s \<noteq> []" using assms by simp
  have len: "int (length ?s) = int (length (input l)) - pos l"
    using assms by simp
  from DecodeRuneInString_width [OF ne] d len assms
  have w: "1 \<le> w" "pos l + w \<le> int (length (input l))" by simp_all
  from DecodeRuneInString_rune [of ?s] d have "r \<noteq> eof"
    by (simp add: eof_def)
  moreover have "next l = Inr (r, l\<lparr>width := w, pos := pos l + w\<rparr>)"
    using assms d by (simp add: next_def)
  ultimately show ?thesis using w by blast
qed

subsection \<open>The state function and the driver\<close>

text \<open>
  \<^verbatim>\<open>lexText\<close>. One unfolding of the function is one iteration of its \<^verbatim>\<open>for\<close> loop:
  the slice \<^verbatim>\<open>l.input[l.pos:]\<close> is taken first (and panics out of range), a left
  delimiter at the cursor returns the state \<^verbatim>\<open>lexText\<close> again, \<open>eof\<close> leaves the loop
  for \<open>lexText_eof\<close>, and any other rune continues the loop. The loop terminates
  because every rune read moves the cursor towards the end of the input.
\<close>

function lexText :: "lexer \<Rightarrow> panic + (stateFn option \<times> lexer)" where
  "lexText l =
     (if pos l < 0 \<or> int (length (input l)) < pos l then Inl SliceBoundsOutOfRange
      else if HasPrefix (drop (nat (pos l)) (input l)) (leftDelim l) then
        (if pos l > start l then
           (case emit l tokenText of
              Inl e \<Rightarrow> Inl e
            | Inr l' \<Rightarrow> Inr (Some LexText, l'))
         else Inr (Some LexText, l))
      else
        (case next l of
           Inl e \<Rightarrow> Inl e
         | Inr (r, l') \<Rightarrow> if r = eof then lexText_eof l' else lexText l'))"
  by pat_completeness auto
termination
proof (relation "measure (\<lambda>l. nat (int (length (input l)) - pos l))")
  show "wf (measure (\<lambda>l. nat (int (length (input l)) - pos l)))" by simp
next
  fix l :: lexer and x r l'
  assume a: "\<not> (pos l < 0 \<or> int (length (input l)) < pos l)"
    and n: "next l = Inr x" "(r, l') = x" and r: "r \<noteq> eof"
  have "pos l < int (length (input l))"
  proof (rule ccontr)
    assume "\<not> pos l < int (length (input l))"
    then have "next l = Inr (eof, l\<lparr>width := 0\<rparr>)" by (simp add: next_eof)
    with n r show False by auto
  qed
  with a next_in_bounds [of l] n
  show "(l', l) \<in> measure (\<lambda>l. nat (int (length (input l)) - pos l))"
    by auto
qed


declare lexText.simps [simp del]

text \<open>Calling a state function.\<close>

fun apply_stateFn :: "stateFn \<Rightarrow> lexer \<Rightarrow> panic + (stateFn option \<times> lexer)" where
  "apply_stateFn LexText l = lexText l"

text \<open>
  \<^verbatim>\<open>lexer.run\<close>: \<^verbatim>\<open>for l.state = lexText; l.state != nil; { l.state = l.state(l) }\<close>.
  Nothing bounds the number of iterations, so the loop is given fuel: \<open>None\<close> means
  that the fuel ran out before the state became nil, \<open>Some (Inl e)\<close> that a state
  function panicked, \<open>Some (Inr l')\<close> that the loop ended in the lexer \<open>l'\<close>.
\<close>

fun run_loop :: "nat \<Rightarrow> lexer \<Rightarrow> (panic + lexer) option" where
  "run_loop n l =
     (case state l of
        None \<Rightarrow> Some (Inr l)
      | Some f \<Rightarrow>
          (case n of
             0 \<Rightarrow> None
           | Suc m \<Rightarrow>
               (case apply_stateFn f l of
                  Inl e \<Rightarrow> Some (Inl e)
                | Inr (st, l') \<Rightarrow> run_loop m (l'\<lparr>state := st\<rparr>))))"

declare run_loop.simps [simp del]

definition run :: "nat \<Rightarrow> lexer \<Rightarrow> (panic + lexer) option" where
  "run n l = run_loop n (l\<lparr>state := Some LexText\<rparr>)"

text \<open>
  The source has no function that creates a lexer. \<open>lex inp ld rd\<close> is a lexer about
  to scan \<open>inp\<close> with the delimiters \<open>ld\<close> and \<open>rd\<close>, as a composite literal
  would build it: the cursor and the start of the pending item are at \<open>0\<close> and
  nothing has been sent. It serves as the concrete input of the examples.
\<close>

definition lex :: "string \<Rightarrow> string \<Rightarrow> string \<Rightarrow> lexer" where
  "lex inp ld rd =
     \<lparr>BlockStartString = ''{%'', BlockEndString = ''%}'',
      VariableStartString = ''{{'', VariableEndString = ''}}'',
      CommentStartString = ''{#'', CommentEndString = ''#}'',
      name = [], filename = [], input = inp, leftDelim = ld, rightDelim = rd,
      state = None, pos = 0, start = 0, width = 0, lastPos = 0, items = []\<rparr>"

section \<open>Properties of the lexer\<close>

subsection \<open>Single iterations of \<open>lexText\<close>\<close>

lemma lexText_at_delim:
  assumes "0 \<le> pos l" "pos l \<le> int (length (input l))" "start l = pos l"
    and "HasPrefix (drop (nat (pos l)) (input l)) (leftDelim l)"
  shows "lexText l = Inr (Some LexText, l)"
  using assms by (subst lexText.simps) simp

lemma run_loop_stuck:
  assumes "state l = Some LexText" "0 \<le> pos l" "pos l \<le> int (length (input l))"
    "start l = pos l" "HasPrefix (drop (nat (pos l)) (input l)) (leftDelim l)"
  shows "run_loop n l = None"
proof (induction n)
  case 0
  show ?case using assms(1) by (subst run_loop.simps) simp
next
  case (Suc n)
  have same: "l\<lparr>state := Some LexText\<rparr> = l" using assms(1) by simp
  show ?case
    by (subst run_loop.simps)
       (simp add: assms(1) lexText_at_delim [OF assms(2-5)] same Suc)
qed

lemma lexText_emits_text_at_delim:
  assumes "0 \<le> start l" "start l < pos l" "pos l \<le> int (length (input l))"
    and "HasPrefix (drop (nat (pos l)) (input l)) (leftDelim l)"
  shows "lexText l = Inr (Some LexText,
           l\<lparr>items := items l @ [\<lparr>ityp = tokenText, ipos = start l,
                                    ival = slice (input l) (start l) (pos l)\<rparr>],
             start := pos l\<rparr>)"
  using assms by (subst lexText.simps) (simp add: emit_def)

lemma lexText_step:
  assumes "0 \<le> pos l" "pos l < int (length (input l))"
    and "\<not> HasPrefix (drop (nat (pos l)) (input l)) (leftDelim l)"
  shows "\<exists>w. 1 \<le> w \<and> pos l + w \<le> int (length (input l))
           \<and> lexText l = lexText (l\<lparr>width := w, pos := pos l + w\<rparr>)"
proof -
  from next_in_bounds [OF assms(1,2)] obtain r w where
    n: "next l = Inr (r, l\<lparr>width := w, pos := pos l + w\<rparr>)" "r \<noteq> eof"
       "1 \<le> w" "pos l + w \<le> int (length (input l))"
    by blast
  have "lexText l = lexText (l\<lparr>width := w, pos := pos l + w\<rparr>)"
    using assms n(1,2) by (subst lexText.simps) simp
  with n(3,4) show ?thesis by blast
qed

lemma lexText_at_end:
  assumes "0 \<le> start l" "start l \<le> pos l" "pos l = int (length (input l))"
    and "\<not> HasPrefix [] (leftDelim l)"
  shows "lexText l = Inr (None,
           l\<lparr>width := 0,
             items := items l
               @ (if start l < pos l
                  then [\<lparr>ityp = tokenText, ipos = start l, ival = slice (input l) (start l) (pos l)\<rparr>]
                  else [])
               @ [\<lparr>ityp = tokenEOF, ipos = pos l, ival = []\<rparr>],
             start := pos l\<rparr>)"
  using assms
  by (subst lexText.simps) (simp add: next_eof lexText_eof_def emit_def slice_def)

text \<open>
  Claim C10. The cursor stays within the input. From a lexer whose cursor is within
  \<open>0 .. len(input)\<close>, \<open>next\<close> does not panic and leaves the cursor within these
  bounds; one \<open>backup\<close> after it restores the cursor exactly. At the end of the input
  \<open>next\<close> returns \<open>eof\<close>, sets the width to \<open>0\<close> and does not move the cursor;
  before the end it returns a rune other than \<open>eof\<close> and moves the cursor forward.
\<close>

theorem next_backup_within_bounds:
  assumes "0 \<le> pos l" "pos l \<le> int (length (input l))"
  shows "\<exists>r l'. next l = Inr (r, l')
           \<and> input l' = input l
           \<and> 0 \<le> pos l' \<and> pos l' \<le> int (length (input l'))
           \<and> pos (backup l') = pos l
           \<and> (if pos l = int (length (input l))
               then r = eof \<and> width l' = 0 \<and> pos l' = pos l
               else r \<noteq> eof \<and> pos l < pos l')"
proof (cases "pos l = int (length (input l))")
  case True
  then show ?thesis using assms by (simp add: next_eof backup_def)
next
  case False
  with assms have lt: "pos l < int (length (input l))" by simp
  from next_in_bounds [OF assms(1) lt] obtain r w where
    "next l = Inr (r, l\<lparr>width := w, pos := pos l + w\<rparr>)" "r \<noteq> eof"
    "1 \<le> w" "pos l + w \<le> int (length (input l))"
    by blast
  with False assms(1) show ?thesis by (simp add: backup_def)
qed

theorem next_backup_within_bounds_witness:
  "(\<exists>r l'. next (lex ''ab'' ''{{'' ''}}'') = Inr (r, l') \<and> r \<noteq> eof \<and> pos l' = 1
      \<and> pos (backup l') = 0)
   \<and> (\<exists>r l'. next ((lex ''ab'' ''{{'' ''}}'')\<lparr>pos := 2\<rparr>) = Inr (r, l') \<and> r = eof
      \<and> width l' = 0 \<and> pos l' = 2 \<and> pos (backup l') = 2)"
proof
  have "0 \<le> pos (lex ''ab'' ''{{'' ''}}'')"
    "pos (lex ''ab'' ''{{'' ''}}'') \<le> int (length (input (lex ''ab'' ''{{'' ''}}'')))"
    by (simp_all add: lex_def)
  from next_backup_within_bounds [OF this]
  show "\<exists>r l'. next (lex ''ab'' ''{{'' ''}}'') = Inr (r, l') \<and> r \<noteq> eof \<and> pos l' = 1
      \<and> pos (backup l') = 0"
    by (simp add: lex_def next_def DecodeRuneInString_def first_tab_def byte_at_def eof_def
        backup_def)
next
  let ?l = "(lex ''ab'' ''{{'' ''}}'')\<lparr>pos := 2\<rparr>"
  have "0 \<le> pos ?l" "pos ?l \<le> int (length (input ?l))"
    by (simp_all add: lex_def)
  from next_backup_within_bounds [OF this]
  show "\<exists>r l'. next ?l = Inr (r, l') \<and> r = eof \<and> width l' = 0 \<and> pos l' = 2
      \<and> pos (backup l') = 2"
    by (auto simp add: lex_def)
qed

text \<open>
  Claim C5. \<open>errorf\<close> sends exactly one item, of kind \<open>tokenError\<close>, carrying the
  formatted message and the start of the pending item, and returns the nil state; the loop
  of \<open>run\<close>, given that state, ends at once without sending anything more, so the error
  item is the last of the sequence.
\<close>

theorem errorf_ends_scan:
  "fst (errorf l msg) = None
   \<and> snd (errorf l msg) = l\<lparr>items := items l @ [\<lparr>ityp = tokenError, ipos = start l, ival = msg\<rparr>]\<rparr>
   \<and> run_loop n ((snd (errorf l msg))\<lparr>state := fst (errorf l msg)\<rparr>)
       = Some (Inr ((snd (errorf l msg))\<lparr>state := None\<rparr>))"
  by (simp add: errorf_def run_loop.simps)

text \<open>
  Claim C7. When no left delimiter is found from the cursor to the end of the input,
  \<open>lexText\<close> moves the cursor to the end, sends a \<open>tokenText\<close> item for the pending
  bytes exactly when there is at least one of them, then sends one \<open>tokenEOF\<close> item and
  returns the nil state.
\<close>

theorem lexText_exhausted_input:
  assumes "0 \<le> start l" "start l \<le> pos l" "pos l \<le> int (length (input l))"
    and "\<forall>k. nat (pos l) \<le> k \<and> k \<le> length (input l)
           \<longrightarrow> \<not> HasPrefix (drop k (input l)) (leftDelim l)"
  shows "lexText l = Inr (None,
           l\<lparr>pos := int (length (input l)), width := 0,
             items := items l
               @ (if start l < int (length (input l))
                  then [\<lparr>ityp = tokenText, ipos = start l,
                         ival = slice (input l) (start l) (int (length (input l)))\<rparr>]
                  else [])
               @ [\<lparr>ityp = tokenEOF, ipos = int (length (input l)), ival = []\<rparr>],
             start := int (length (input l))\<rparr>)"
  using assms
proof (induction "nat (int (length (input l)) - pos l)" arbitrary: l rule: less_induct)
  case less
  show ?case
  proof (cases "pos l = int (length (input l))")
    case True
    from less.prems(4) True have "\<not> HasPrefix [] (leftDelim l)"
      by (metis drop_all le_refl nat_int)
    from lexText_at_end [OF less.prems(1,2) True this] True show ?thesis
      by simp
  next
    case False
    with less.prems have lt: "pos l < int (length (input l))" and p0: "0 \<le> pos l"
      by simp_all
    from less.prems(4) lt p0 have "\<not> HasPrefix (drop (nat (pos l)) (input l)) (leftDelim l)"
      by simp
    from lexText_step [OF p0 lt this] obtain w where
      w: "1 \<le> w" "pos l + w \<le> int (length (input l))"
         "lexText l = lexText (l\<lparr>width := w, pos := pos l + w\<rparr>)"
      by blast
    let ?l' = "l\<lparr>width := w, pos := pos l + w\<rparr>"
    have "lexText ?l' = Inr (None,
           ?l'\<lparr>pos := int (length (input ?l')), width := 0,
             items := items ?l'
               @ (if start ?l' < int (length (input ?l'))
                  then [\<lparr>ityp = tokenText, ipos = start ?l',
                         ival = slice (input ?l') (start ?l') (int (length (input ?l')))\<rparr>]
                  else [])
               @ [\<lparr>ityp = tokenEOF, ipos = int (length (input ?l')), ival = []\<rparr>],
             start := int (length (input ?l'))\<rparr>)"
    proof (rule less.hyps)
      show "nat (int (length (input ?l')) - pos ?l') < nat (int (length (input l)) - pos l)"
        using w lt by simp
      show "0 \<le> start ?l'" using less.prems(1) by simp
      show "start ?l' \<le> pos ?l'" using less.prems(2) w(1) by simp
      show "pos ?l' \<le> int (length (input ?l'))" using w(2) by simp
      show "\<forall>k. nat (pos ?l') \<le> k \<and> k \<le> length (input ?l')
              \<longrightarrow> \<not> HasPrefix (drop k (input ?l')) (leftDelim ?l')"
      proof (intro allI impI)
        fix k assume k: "nat (pos ?l') \<le> k \<and> k \<le> length (input ?l')"
        then have "nat (pos l) \<le> k \<and> k \<le> length (input l)"
          using w(1) p0 by auto
        with less.prems(4) show "\<not> HasPrefix (drop k (input ?l')) (leftDelim ?l')"
          by simp
      qed
    qed
    with w(3) show ?thesis by simp
  qed
qed

theorem lexText_exhausted_input_witness:
  "lexText (lex ''ab'' ''{{'' ''}}'') =
     Inr (None, (lex ''ab'' ''{{'' ''}}'')
       \<lparr>pos := 2, width := 0,
        items := [\<lparr>ityp = tokenText, ipos = 0, ival = ''ab''\<rparr>,
                  \<lparr>ityp = tokenEOF, ipos = 2, ival = []\<rparr>],
        start := 2\<rparr>)
   \<and> lexText ((lex ''ab'' ''{{'' ''}}'')\<lparr>pos := 2, start := 2\<rparr>) =
     Inr (None, (lex ''ab'' ''{{'' ''}}'')
       \<lparr>pos := 2, width := 0, items := [\<lparr>ityp = tokenEOF, ipos = 2, ival = []\<rparr>],
        start := 2\<rparr>)"
proof
  let ?l = "lex ''ab'' ''{{'' ''}}''"
  have "\<not> HasPrefix (drop k (input ?l)) (leftDelim ?l)" for k
    by (cases k) (simp_all add: HasPrefix_def lex_def)
  then have "\<forall>k. nat (pos ?l) \<le> k \<and> k \<le> length (input ?l)
          \<longrightarrow> \<not> HasPrefix (drop k (input ?l)) (leftDelim ?l)"
    by blast
  from lexText_exhausted_input [of ?l, OF _ _ _ this]
  show "lexText ?l =
     Inr (None, ?l
       \<lparr>pos := 2, width := 0,
        items := [\<lparr>ityp = tokenText, ipos = 0, ival = ''ab''\<rparr>,
                  \<lparr>ityp = tokenEOF, ipos = 2, ival = []\<rparr>],
        start := 2\<rparr>)"
    by (simp add: lex_def slice_def)
next
  let ?l = "(lex ''ab'' ''{{'' ''}}'')\<lparr>pos := 2, start := 2\<rparr>"
  have "\<not> HasPrefix (drop k (input ?l)) (leftDelim ?l)" for k
    by (cases k) (simp_all add: HasPrefix_def lex_def)
  then have "\<forall>k. nat (pos ?l) \<le> k \<and> k \<le> length (input ?l)
          \<longrightarrow> \<not> HasPrefix (drop k (input ?l)) (leftDelim ?l)"
    by blast
  from lexText_exhausted_input [of ?l, OF _ _ _ this]
  show "lexText ?l =
     Inr (None, (lex ''ab'' ''{{'' ''}}'')
       \<lparr>pos := 2, width := 0, items := [\<lparr>ityp = tokenEOF, ipos = 2, ival = []\<rparr>],
        start := 2\<rparr>)"
    by (simp add: lex_def slice_def)
qed

text \<open>
  Claim C3 asks that \<open>run\<close> reach the nil state on every input. It does not when the
  input holds the left delimiter: on \<^verbatim>\<open>a{{b}}\<close> with the delimiters \<^verbatim>\<open>{{\<close> and \<^verbatim>\<open>}}\<close>
  the first call of \<open>lexText\<close> sends the text \<^verbatim>\<open>a\<close> and returns \<open>lexText\<close> with the
  cursor still in front of the delimiter; every later call returns \<open>lexText\<close> again
  without moving the cursor or sending an item. Whatever the fuel, the loop of \<open>run\<close>
  has not ended when the fuel is used up, and neither \<open>tokenEOF\<close> nor \<open>tokenError\<close> is
  ever sent.
\<close>

theorem run_never_ends_at_left_delimiter: "run n (lex ''a{{b}}'' ''{{'' ''}}'') = None"
proof (cases n)
  case 0
  then show ?thesis by (simp add: run_def run_loop.simps)
next
  case (Suc m)
  let ?l0 = "(lex ''a{{b}}'' ''{{'' ''}}'')\<lparr>state := Some LexText\<rparr>"
  let ?l1 = "?l0\<lparr>width := 1, pos := 1\<rparr>"
  let ?l2 = "?l1\<lparr>items := [\<lparr>ityp = tokenText, ipos = 0, ival = ''a''\<rparr>], start := 1\<rparr>"
  have "lexText ?l0 = lexText ?l1"
    by (subst lexText.simps)
       (simp add: lex_def HasPrefix_def next_def DecodeRuneInString_def first_tab_def
          byte_at_def eof_def)
  also have "\<dots> = Inr (Some LexText, ?l2)"
    using lexText_emits_text_at_delim [of ?l1]
    by (simp add: lex_def HasPrefix_def slice_def)
  finally have step: "lexText ?l0 = Inr (Some LexText, ?l2)" .
  have "run_loop m ?l2 = None"
    by (rule run_loop_stuck) (simp_all add: lex_def HasPrefix_def)
  with step Suc show ?thesis
    by (simp add: run_def run_loop.simps [of "Suc m"] lex_def)
qed

section \<open>The syntax tree\<close>

text \<open>\<^verbatim>\<open>type NodeType int\<close> with the constants of the \<^verbatim>\<open>iota\<close> block.\<close>

datatype NodeType =
    NodeList | NodeText | NodeVar | NodeLookup | NodeUnary | NodeFloat | NodeInteger
  | NodeString | NodeBool | NodeAdd | NodeMul | NodeMapExpr | NodeMapElem | NodeIndexExpr
  | NodeSet | NodeIf | NodeElseIf | NodeFor

text \<open>
  The node types that implement the interface \<^verbatim>\<open>Node\<close>, that is, those with a
  \<^verbatim>\<open>String\<close> and a \<^verbatim>\<open>Copy\<close> method. Every struct embeds a \<^verbatim>\<open>NodeType\<close> and a \<^verbatim>\<open>Pos\<close>,
  which are the first two arguments of every constructor; the other arguments are the
  remaining fields in the order of the declaration.

  A field or slice element of interface type \<^verbatim>\<open>Node\<close> (or of type \<^verbatim>\<open>*MapElem\<close> in
  \<^verbatim>\<open>MapExpr.Elems\<close>) is a \<open>Node option\<close>, with \<open>None\<close> for nil: \<^verbatim>\<open>newVar\<close>,
  \<^verbatim>\<open>newConditional\<close>, \<^verbatim>\<open>newIf\<close> and \<^verbatim>\<open>newFor\<close> leave such fields nil, and
  \<^verbatim>\<open>IfBlockNode.Copy\<close> creates nil elements. A non-nil interface value that holds a
  nil pointer is not represented: nothing in the source creates one, so the tests
  \<^verbatim>\<open>l == nil\<close> and \<^verbatim>\<open>m == nil\<close> on the receivers of \<^verbatim>\<open>CopyList\<close> and \<^verbatim>\<open>MapExpr.Copy\<close>
  are never true. This type describes the tree that a node value denotes; which nodes
  of it are shared between two trees is the subject of the store model further down.

  The value of a \<^verbatim>\<open>FloatNode\<close> is a \<^verbatim>\<open>float64\<close>. Nothing below computes with it; its
  type is the parameter \<open>'f\<close>, and the two library functions that produce and print it
  (\<^verbatim>\<open>strconv.ParseFloat\<close> and \<^verbatim>\<open>fmt.Sprint\<close>) are parameters of \<open>newLiteral\<close> and
  \<open>String\<close>.
\<close>

datatype 'f Node =
    ListNode NodeType Pos "'f Node option list"
  | TextNode NodeType Pos string
  | VarNode NodeType Pos "'f Node option"
  | LookupNode NodeType Pos string
  | StringNode NodeType Pos string
  | BoolNode NodeType Pos bool
  | IntegerNode NodeType Pos "64 word"
  | FloatNode NodeType Pos 'f
  | UnaryNode NodeType Pos "'f Node option" item
  | AddExpr NodeType Pos "'f Node option" "'f Node option" item
  | MulExpr NodeType Pos "'f Node option" "'f Node option" item
  | MapExpr NodeType Pos "'f Node option list"
  | MapElem NodeType Pos "'f Node option" "'f Node option"
  | IndexExpr NodeType Pos "'f Node option" "'f Node option"
  | SetNode NodeType Pos "'f Node option" "'f Node option"
  | ConditionalNode NodeType Pos "'f Node option" "'f Node option"
  | IfBlockNode NodeType Pos "'f Node option list" "'f Node option"
  | ForNode NodeType Pos "'f Node option" "'f Node option" "'f Node option"
  | BlockNode NodeType Pos string "'f Node option"

text \<open>\<^verbatim>\<open>Position()\<close> and \<^verbatim>\<open>Type()\<close>, promoted from the embedded \<^verbatim>\<open>Pos\<close> and \<^verbatim>\<open>NodeType\<close>.\<close>

fun Position :: "'f Node \<Rightarrow> Pos" where
  "Position (ListNode t p ns) = p"
| "Position (TextNode t p txt) = p"
| "Position (VarNode t p n) = p"
| "Position (LookupNode t p nm) = p"
| "Position (StringNode t p v) = p"
| "Position (BoolNode t p v) = p"
| "Position (IntegerNode t p v) = p"
| "Position (FloatNode t p v) = p"
| "Position (UnaryNode t p v u) = p"
| "Position (AddExpr t p l r opr) = p"
| "Position (MulExpr t p l r opr) = p"
| "Position (MapExpr t p es) = p"
| "Position (MapElem t p k v) = p"
| "Position (IndexExpr t p v i) = p"
| "Position (SetNode t p l r) = p"
| "Position (ConditionalNode t p g b) = p"
| "Position (IfBlockNode t p cs e) = p"
| "Position (ForNode t p f i b) = p"
| "Position (BlockNode t p nm b) = p"

fun Type :: "'f Node \<Rightarrow> NodeType" where
  "Type (ListNode t p ns) = t"
| "Type (TextNode t p txt) = t"
| "Type (VarNode t p n) = t"
| "Type (LookupNode t p nm) = t"
| "Type (StringNode t p v) = t"
| "Type (BoolNode t p v) = t"
| "Type (IntegerNode t p v) = t"
| "Type (FloatNode t p v) = t"
| "Type (UnaryNode t p v u) = t"
| "Type (AddExpr t p l r opr) = t"
| "Type (MulExpr t p l r opr) = t"
| "Type (MapExpr t p es) = t"
| "Type (MapElem t p k v) = t"
| "Type (IndexExpr t p v i) = t"
| "Type (SetNode t p l r) = t"
| "Type (ConditionalNode t p g b) = t"
| "Type (IfBlockNode t p cs e) = t"
| "Type (ForNode t p f i b) = t"
| "Type (BlockNode t p nm b) = t"

subsection \<open>Rendering\<close>

text \<open>
  \<^verbatim>\<open>strconv.FormatInt(i, 10)\<close>: the decimal digits of the magnitude, after a minus sign
  for a negative number.
\<close>

definition digit_char :: "nat \<Rightarrow> char" where
  "digit_char d = char_of (48 + d)"

fun formatBits :: "nat \<Rightarrow> string" where
  "formatBits u = (if u < 10 then [digit_char u] else formatBits (u div 10) @ [digit_char (u mod 10)])"

declare formatBits.simps [simp del]

definition FormatInt :: "int \<Rightarrow> string" where
  "FormatInt i = (if i < 0 then CHR ''-'' # formatBits (nat (- i)) else formatBits (nat i))"

text \<open>The text of the runtime error raised by a call through a nil interface.\<close>

definition nil_dereference_text :: string where
  "nil_dereference_text = ''runtime error: invalid memory address or nil pointer dereference''"

text \<open>
  The \<^verbatim>\<open>String\<close> methods. The result is \<open>Inl\<close> when the method panics, which only
  \<^verbatim>\<open>VarNode.String\<close> can do: it calls \<^verbatim>\<open>v.Node.String()\<close> directly, and that call
  panics on a nil interface. Every other method prints its children through \<^verbatim>\<open>fmt\<close>:

  \<^item> \<open>fmt_operand ff verb x\<close> is what \<^verbatim>\<open>fmt\<close> prints for an operand \<open>x\<close> of type
    \<^verbatim>\<open>Node\<close> under the verb \<open>verb\<close> (\<^verbatim>\<open>%s\<close>, or \<^verbatim>\<open>%v\<close>, which is also the verb of
    \<^verbatim>\<open>fmt.Fprint\<close>). A nil operand prints as \<^verbatim>\<open><nil>\<close> under \<^verbatim>\<open>%v\<close> and as
    \<^verbatim>\<open>%!s(<nil>)\<close> under \<^verbatim>\<open>%s\<close>; for any other operand \<^verbatim>\<open>fmt\<close> calls its \<^verbatim>\<open>String\<close>
    method, and recovers from a panic of that method by printing the panic value
    inside \<^verbatim>\<open>%!s(PANIC=String method: ...)\<close>, with the verb in the place of \<^verbatim>\<open>s\<close>;
    the only panic of a \<^verbatim>\<open>String\<close> method is the nil dereference of
    \<^verbatim>\<open>VarNode.String\<close>.
  \<^item> \<open>Fprint_range ff b ns\<close> is the loop
    \<^verbatim>\<open>for _, n := range ns { fmt.Fprint(b, n) }\<close> of \<^verbatim>\<open>ListNode.String\<close> and
    \<^verbatim>\<open>IfBlockNode.String\<close>, started with the buffer contents \<open>b\<close>.
  \<^item> \<open>MapExpr_range ff b es\<close> is the loop of \<^verbatim>\<open>MapExpr.String\<close>; the test
    \<^verbatim>\<open>i != len(m.Elems)-1\<close> holds exactly when elements remain after the current one.

  \<^verbatim>\<open>TextNode.String\<close> formats with the package variable \<^verbatim>\<open>textFormat\<close>, taken at its
  declared value \<^verbatim>\<open>"%s"\<close>. \<open>ff\<close> stands for \<^verbatim>\<open>fmt.Sprint\<close> on a \<^verbatim>\<open>float64\<close>.
\<close>

fun String :: "('f \<Rightarrow> string) \<Rightarrow> 'f Node \<Rightarrow> panic + string"
  and fmt_operand :: "('f \<Rightarrow> string) \<Rightarrow> char \<Rightarrow> 'f Node option \<Rightarrow> string"
  and Fprint_range :: "('f \<Rightarrow> string) \<Rightarrow> string \<Rightarrow> 'f Node option list \<Rightarrow> string"
  and MapExpr_range :: "('f \<Rightarrow> string) \<Rightarrow> string \<Rightarrow> 'f Node option list \<Rightarrow> string"
where
  "String ff (ListNode t p ns) = Inr (Fprint_range ff [] ns)"
| "String ff (TextNode t p txt) = Inr txt"
| "String ff (VarNode t p n) =
     (case n of
        None \<Rightarrow> Inl NilPointerDereference
      | Some m \<Rightarrow> (case String ff m of Inl e \<Rightarrow> Inl e | Inr s \<Rightarrow> Inr (''{{ '' @ s @ '' }}'')))"
| "String ff (LookupNode t p nm) = Inr nm"
| "String ff (StringNode t p v) = Inr ([CHR 0x22] @ v @ [CHR 0x22])"
| "String ff (BoolNode t p v) = Inr (if v then ''true'' else ''false'')"
| "String ff (IntegerNode t p v) = Inr (FormatInt (sint v))"
| "String ff (FloatNode t p v) = Inr (ff v)"
| "String ff (UnaryNode t p v u) = Inr (ival u @ fmt_operand ff CHR ''s'' v)"
| "String ff (AddExpr t p l r opr) =
     Inr (fmt_operand ff CHR ''s'' l @ '' '' @ ival opr @ '' '' @ fmt_operand ff CHR ''s'' r)"
| "String ff (MulExpr t p l r opr) =
     Inr (fmt_operand ff CHR ''s'' l @ '' '' @ ival opr @ '' '' @ fmt_operand ff CHR ''s'' r)"
| "String ff (MapExpr t p es) = Inr (MapExpr_range ff ''{'' es @ ''}'')"
| "String ff (MapElem t p k v) =
     Inr (fmt_operand ff CHR ''s'' k @ '': '' @ fmt_operand ff CHR ''s'' v)"
| "String ff (IndexExpr t p v i) =
     Inr (fmt_operand ff CHR ''s'' v @ ''['' @ fmt_operand ff CHR ''s'' i @ '']'')"
| "String ff (SetNode t p l r) =
     Inr (''{% set '' @ fmt_operand ff CHR ''s'' l @ '' = '' @ fmt_operand ff CHR ''s'' r @ '' %}'')"
| "String ff (ConditionalNode t p g b) =
     (let b0 = [];
          b1 = (if t = NodeIf then b0 @ ''{% if '' @ fmt_operand ff CHR ''s'' g @ '' %}''
                else if t = NodeElseIf then b0 @ ''{% elif '' @ fmt_operand ff CHR ''s'' g @ '' %}''
                else b0)
      in Inr (b1 @ fmt_operand ff CHR ''v'' b))"
| "String ff (IfBlockNode t p cs e) =
     (let b1 = Fprint_range ff [] cs;
          b2 = (case e of
                  None \<Rightarrow> b1
                | Some n \<Rightarrow> b1 @ ''{% else %}'' @ fmt_operand ff CHR ''s'' (Some n))
      in Inr (b2 @ ''{% endif %}''))"
| "String ff (ForNode t p f i b) =
     Inr (''{% for '' @ fmt_operand ff CHR ''s'' f @ '' in '' @ fmt_operand ff CHR ''s'' i @ '' %}''
            @ fmt_operand ff CHR ''s'' b @ ''{% endfor %}'')"
| "String ff (BlockNode t p nm b) =
     Inr (''{% block '' @ nm @ '' %}'' @ fmt_operand ff CHR ''v'' b @ ''{% endblock %}'')"
| "fmt_operand ff verb None =
     (if verb = CHR ''v'' then ''<nil>'' else ''%!'' @ [verb] @ ''(<nil>)'')"
| "fmt_operand ff verb (Some n) =
     (case String ff n of
        Inr s \<Rightarrow> s
      | Inl e \<Rightarrow> ''%!'' @ [verb] @ ''(PANIC=String method: '' @ nil_dereference_text @ '')'')"
| "Fprint_range ff b [] = b"
| "Fprint_range ff b (n # ns) = Fprint_range ff (b @ fmt_operand ff CHR ''v'' n) ns"
| "MapExpr_range ff b [] = b"
| "MapExpr_range ff b (n # ns) =
     (let b1 = b @ fmt_operand ff CHR ''v'' n;
          b2 = (if ns \<noteq> [] then b1 @ '', '' else b1)
      in MapExpr_range ff b2 ns)"

subsection \<open>Constructors\<close>

text \<open>
  The constructor functions of the source. Those that read \<^verbatim>\<open>lhs.Position()\<close> or
  \<^verbatim>\<open>val.Position()\<close> panic when that argument is nil.
\<close>

definition newList :: "Pos \<Rightarrow> 'f Node" where
  "newList p = ListNode NodeList p []"

definition newText :: "Pos \<Rightarrow> string \<Rightarrow> 'f Node" where
  "newText p txt = TextNode NodeText p txt"

definition newVar :: "Pos \<Rightarrow> 'f Node" where
  "newVar p = VarNode NodeVar p None"

definition newLookup :: "Pos \<Rightarrow> string \<Rightarrow> 'f Node" where
  "newLookup p nm = LookupNode NodeLookup p nm"

definition newUnaryNode :: "'f Node option \<Rightarrow> item \<Rightarrow> panic + 'f Node" where
  "newUnaryNode v u =
     (case v of
        None \<Rightarrow> Inl NilPointerDereference
      | Some n \<Rightarrow> Inr (UnaryNode NodeUnary (Position n) v u))"

definition newAddExpr :: "'f Node option \<Rightarrow> 'f Node option \<Rightarrow> item \<Rightarrow> panic + 'f Node" where
  "newAddExpr l r opr =
     (case l of
        None \<Rightarrow> Inl NilPointerDereference
      | Some n \<Rightarrow> Inr (AddExpr NodeAdd (Position n) l r opr))"

definition newMulExpr :: "'f Node option \<Rightarrow> 'f Node option \<Rightarrow> item \<Rightarrow> panic + 'f Node" where
  "newMulExpr l r opr =
     (case l of
        None \<Rightarrow> Inl NilPointerDereference
      | Some n \<Rightarrow> Inr (MulExpr NodeMul (Position n) l r opr))"

definition newMapExpr :: "Pos \<Rightarrow> 'f Node" where
  "newMapExpr p = MapExpr NodeMapExpr p []"

definition newMapElem :: "'f Node option \<Rightarrow> 'f Node option \<Rightarrow> panic + 'f Node" where
  "newMapElem l r =
     (case l of
        None \<Rightarrow> Inl NilPointerDereference
      | Some n \<Rightarrow> Inr (MapElem NodeMapElem (Position n) l r))"

definition newIndexExpr :: "'f Node option \<Rightarrow> 'f Node option \<Rightarrow> panic + 'f Node" where
  "newIndexExpr v i =
     (case v of
        None \<Rightarrow> Inl NilPointerDereference
      | Some n \<Rightarrow> Inr (IndexExpr NodeIndexExpr (Position n) v i))"

definition newSet :: "Pos \<Rightarrow> 'f Node option \<Rightarrow> 'f Node option \<Rightarrow> 'f Node" where
  "newSet p l r = SetNode NodeSet p l r"

definition newConditional :: "Pos \<Rightarrow> NodeType \<Rightarrow> 'f Node" where
  "newConditional p t = ConditionalNode t p None None"

definition newIfCond :: "Pos \<Rightarrow> 'f Node" where
  "newIfCond p = newConditional p NodeIf"

definition newElifCond :: "Pos \<Rightarrow> 'f Node" where
  "newElifCond p = newConditional p NodeElseIf"

definition newIf :: "Pos \<Rightarrow> 'f Node" where
  "newIf p = IfBlockNode NodeIf p [] None"

definition newFor :: "Pos \<Rightarrow> 'f Node" where
  "newFor p = ForNode NodeFor p None None None"

subsection \<open>Copy\<close>

text \<open>
  The \<^verbatim>\<open>Copy\<close> methods, on the trees that the nodes denote.

  \<^item> \<open>Copy_iface x\<close> is the method call \<^verbatim>\<open>x.Copy()\<close> on a field \<open>x\<close> of interface
    type, which panics when \<open>x\<close> is nil.
  \<^item> \<open>Copy_range acc es\<close> is the loop
    \<^verbatim>\<open>for _, e := range es { acc = append(acc, e.Copy()) }\<close> of \<^verbatim>\<open>ListNode.CopyList\<close>
    and \<^verbatim>\<open>IfBlockNode.Copy\<close>. In \<^verbatim>\<open>IfBlockNode.Copy\<close> the slice appended to is
    \<^verbatim>\<open>make([]Node, len(i.Conditionals))\<close>, which already holds \<^verbatim>\<open>len(i.Conditionals)\<close>
    nil elements.
  \<^item> \<open>MapExpr_Copy_range\<close> is the loop of \<^verbatim>\<open>MapExpr.Copy\<close>, with its type assertion
    \<^verbatim>\<open>elem.Copy().(*MapElem)\<close>.

  \<^verbatim>\<open>VarNode\<close>, \<^verbatim>\<open>UnaryNode\<close>, \<^verbatim>\<open>AddExpr\<close>, \<^verbatim>\<open>MulExpr\<close>, \<^verbatim>\<open>MapElem\<close> and \<^verbatim>\<open>IndexExpr\<close> build
  the new node from the fields of the old one, without calling \<^verbatim>\<open>Copy\<close> on them.
\<close>

definition is_MapElem :: "'f Node \<Rightarrow> bool" where
  "is_MapElem n = (case n of MapElem t p k v \<Rightarrow> True | _ \<Rightarrow> False)"

fun Copy :: "'f Node \<Rightarrow> panic + 'f Node"
  and Copy_iface :: "'f Node option \<Rightarrow> panic + 'f Node"
  and Copy_range :: "'f Node option list \<Rightarrow> 'f Node option list \<Rightarrow> panic + 'f Node option list"
  and MapExpr_Copy_range ::
    "'f Node option list \<Rightarrow> 'f Node option list \<Rightarrow> panic + 'f Node option list"
where
  "Copy (ListNode t p ns) =
     (case Copy_range [] ns of
        Inl e \<Rightarrow> Inl e
      | Inr ms \<Rightarrow> Inr (ListNode NodeList p ms))"
| "Copy (TextNode t p txt) = Inr (TextNode NodeText p ([] @ txt))"
| "Copy (VarNode t p n) = Inr (VarNode t p n)"
| "Copy (LookupNode t p nm) = Inr (newLookup p nm)"
| "Copy (StringNode t p v) = Inr (StringNode t p v)"
| "Copy (BoolNode t p v) = Inr (BoolNode t p v)"
| "Copy (IntegerNode t p v) = Inr (IntegerNode t p v)"
| "Copy (FloatNode t p v) = Inr (FloatNode t p v)"
| "Copy (UnaryNode t p v u) = Inr (UnaryNode t p v u)"
| "Copy (AddExpr t p l r opr) = newAddExpr l r opr"
| "Copy (MulExpr t p l r opr) = newMulExpr l r opr"
| "Copy (MapExpr t p es) =
     (case MapExpr_Copy_range [] es of
        Inl e \<Rightarrow> Inl e
      | Inr ms \<Rightarrow> Inr (MapExpr NodeMapExpr p ms))"
| "Copy (MapElem t p k v) = newMapElem k v"
| "Copy (IndexExpr t p v i) = newIndexExpr v i"
| "Copy (SetNode t p l r) =
     (case Copy_iface l of
        Inl e \<Rightarrow> Inl e
      | Inr l' \<Rightarrow>
          (case Copy_iface r of
             Inl e \<Rightarrow> Inl e
           | Inr r' \<Rightarrow> Inr (newSet p (Some l') (Some r'))))"
| "Copy (ConditionalNode t p g b) =
     (case Copy_iface g of
        Inl e \<Rightarrow> Inl e
      | Inr g' \<Rightarrow>
          (case Copy_iface b of
             Inl e \<Rightarrow> Inl e
           | Inr b' \<Rightarrow> Inr (ConditionalNode t p (Some g') (Some b'))))"
| "Copy (IfBlockNode t p cs e) =
     (case Copy_range (replicate (length cs) None) cs of
        Inl x \<Rightarrow> Inl x
      | Inr cs' \<Rightarrow>
          (case e of
             None \<Rightarrow> Inr (IfBlockNode NodeIf p cs' None)
           | Some n \<Rightarrow>
               (case Copy n of
                  Inl x \<Rightarrow> Inl x
                | Inr n' \<Rightarrow> Inr (IfBlockNode NodeIf p cs' (Some n')))))"
| "Copy (ForNode t p f i b) =
     (case Copy_iface f of
        Inl e \<Rightarrow> Inl e
      | Inr f' \<Rightarrow>
          (case Copy_iface i of
             Inl e \<Rightarrow> Inl e
           | Inr i' \<Rightarrow>
               (case Copy_iface b of
                  Inl e \<Rightarrow> Inl e
                | Inr b' \<Rightarrow> Inr (ForNode NodeFor p (Some f') (Some i') (Some b')))))"
| "Copy (BlockNode t p nm b) =
     (case Copy_iface b of
        Inl e \<Rightarrow> Inl e
      | Inr b' \<Rightarrow> Inr (BlockNode t p nm (Some b')))"
| "Copy_iface None = Inl NilPointerDereference"
| "Copy_iface (Some n) = Copy n"
| "Copy_range acc [] = Inr acc"
| "Copy_range acc (e # es) =
     (case Copy_iface e of
        Inl x \<Rightarrow> Inl x
      | Inr c \<Rightarrow> Copy_range (acc @ [Some c]) es)"
| "MapExpr_Copy_range acc [] = Inr acc"
| "MapExpr_Copy_range acc (e # es) =
     (case Copy_iface e of
        Inl x \<Rightarrow> Inl x
      | Inr c \<Rightarrow>
          if is_MapElem c then MapExpr_Copy_range (acc @ [Some c]) es
          else Inl TypeAssertionFailed)"

section \<open>Literals\<close>

text \<open>
  \<^verbatim>\<open>strconv.ParseInt(val, 10, 64)\<close>, modelled from the library's source for base 10 and
  64 bits. \<open>ParseUint_range n s\<close> is the loop of \<^verbatim>\<open>ParseUint\<close> over the bytes of \<open>s\<close>
  with the accumulator \<open>n\<close>, a \<^verbatim>\<open>uint64\<close>: a byte that is not a decimal digit is a
  syntax error (in base 10 a letter is a digit value of at least 10, and an underscore
  is accepted only in base 0); \<^verbatim>\<open>n >= cutoff\<close> and a wrapped or too large \<^verbatim>\<open>n + d\<close> are
  range errors. \<open>wrap64\<close> is the wrap-around of \<^verbatim>\<open>uint64\<close> arithmetic.
\<close>

definition isdigit :: "char \<Rightarrow> bool" where
  "isdigit c = (48 \<le> (of_char c :: nat) \<and> (of_char c :: nat) \<le> 57)"

definition maxUint64 :: nat where
  "maxUint64 = 2 ^ 64 - 1"

definition wrap64 :: "nat \<Rightarrow> nat" where
  "wrap64 n = n mod 2 ^ 64"

fun ParseUint_range :: "nat \<Rightarrow> string \<Rightarrow> strconvErr + nat" where
  "ParseUint_range n [] = Inr n"
| "ParseUint_range n (c # cs) =
     (if \<not> isdigit c then Inl ErrSyntax
      else
        let d = of_char c - 48 in
        if n \<ge> maxUint64 div 10 + 1 then Inl ErrRange
        else
          let n' = wrap64 (n * 10);
              n1 = wrap64 (n' + d)
          in if n1 < n' \<or> n1 > maxUint64 then Inl ErrRange
             else ParseUint_range n1 cs)"

text \<open>
  \<^verbatim>\<open>ParseInt\<close> takes an optional sign off, converts the rest unsigned, passes a syntax
  error on, and checks the magnitude against \<open>2 ^ 63\<close> (a range error of
  \<^verbatim>\<open>ParseUint\<close> comes with the value \<^verbatim>\<open>maxUint64\<close> and fails that check). The result
  \<^verbatim>\<open>int64(un)\<close>, negated for a minus sign, is a 64-bit word.
\<close>

definition ParseUint :: "string \<Rightarrow> strconvErr + nat" where
  "ParseUint s = (if s = [] then Inl ErrSyntax else ParseUint_range 0 s)"

definition ParseInt :: "string \<Rightarrow> strconvErr + 64 word" where
  "ParseInt s =
     (if s = [] then Inl ErrSyntax
      else
        let (neg, s1) = (if hd s = CHR ''+'' then (False, tl s)
                         else if hd s = CHR ''-'' then (True, tl s)
                         else (False, s));
            r = ParseUint s1
        in if r = Inl ErrSyntax then Inl ErrSyntax
           else
             let un = (case r of Inr u \<Rightarrow> u | Inl e \<Rightarrow> maxUint64);
                 cutoff = (2::nat) ^ 63
             in if \<not> neg \<and> un \<ge> cutoff then Inl ErrRange
                else if neg \<and> un > cutoff then Inl ErrRange
                else
                  let n = (word_of_nat un :: 64 word)
                  in Inr (if neg then - n else n))"

text \<open>
  \<^verbatim>\<open>newLiteral\<close>. Its first argument stands for \<^verbatim>\<open>strconv.ParseFloat(val, 64)\<close>. A
  failed conversion panics with the error of the library, a \<^verbatim>\<open>*NumError\<close> holding the
  name of the function, the lexeme and the kind of error; a token kind that is not a
  literal panics as well.
\<close>

definition newLiteral ::
  "(string \<Rightarrow> strconvErr + 'f) \<Rightarrow> Pos \<Rightarrow> itemType \<Rightarrow> string \<Rightarrow> panic + 'f Node" where
  "newLiteral ParseFloat p t v =
     (if t = tokenFloat then
        (case ParseFloat v of
           Inl err \<Rightarrow> Inl (NumError ''ParseFloat'' v err)
         | Inr x \<Rightarrow> Inr (FloatNode NodeFloat p x))
      else if t = tokenInteger then
        (case ParseInt v of
           Inl err \<Rightarrow> Inl (NumError ''ParseInt'' v err)
         | Inr x \<Rightarrow> Inr (IntegerNode NodeInteger p x))
      else if t = tokenString then Inr (StringNode NodeString p v)
      else if t = tokenBool then Inr (BoolNode NodeBool p (v = ''true''))
      else Inl (UnexpectedLiteralType t))"

subsection \<open>Decimal notation\<close>

text \<open>
  What it means for a lexeme to denote a signed 64-bit integer in base 10, stated
  without reference to the conversion loop: an optional sign, then at least one decimal
  digit and nothing else, with a value between \<open>- 2 ^ 63\<close> and \<open>2 ^ 63 - 1\<close>.
  \<open>decimal_value n ds\<close> is the number written by the digits \<open>ds\<close> after the digits
  of \<open>n\<close>.
\<close>

definition digit_value :: "char \<Rightarrow> nat" where
  "digit_value c = of_char c - 48"

definition decimal_value :: "nat \<Rightarrow> string \<Rightarrow> nat" where
  "decimal_value n ds = foldl (\<lambda>a c. 10 * a + digit_value c) n ds"

definition int64_literal :: "string \<Rightarrow> int option" where
  "int64_literal s =
     (let neg = (s \<noteq> [] \<and> hd s = CHR ''-'');
          ds = (if s \<noteq> [] \<and> (hd s = CHR ''-'' \<or> hd s = CHR ''+'') then tl s else s);
          v = (if neg then - int (decimal_value 0 ds) else int (decimal_value 0 ds))
      in if ds \<noteq> [] \<and> list_all isdigit ds \<and> - (2 ^ 63) \<le> v \<and> v < 2 ^ 63
         then Some v else None)"

subsection \<open>The conversion loop computes the decimal value\<close>

lemma decimal_value_mono: "n \<le> decimal_value n ds"
proof (induction ds arbitrary: n)
  case Nil
  show ?case by (simp add: decimal_value_def)
next
  case (Cons c cs)
  have "n \<le> 10 * n + digit_value c" by simp
  also have "\<dots> \<le> decimal_value (10 * n + digit_value c) cs" by (rule Cons.IH)
  finally show ?case by (simp add: decimal_value_def)
qed

lemma decimal_value_Cons:
  "decimal_value n (c # cs) = decimal_value (10 * n + digit_value c) cs"
  by (simp add: decimal_value_def)

lemma isdigit_value: "isdigit c \<Longrightarrow> digit_value c \<le> 9"
  unfolding isdigit_def digit_value_def by arith

lemma wrap64_small: "n < 2 ^ 64 \<Longrightarrow> wrap64 n = n"
  by (simp add: wrap64_def)

lemma wrap64_once: "2 ^ 64 \<le> n \<Longrightarrow> n < 2 * 2 ^ 64 \<Longrightarrow> wrap64 n = n - 2 ^ 64"
  unfolding wrap64_def by (simp add: mod_if)

lemma ParseUint_range_syntax_step:
  "\<not> isdigit c \<Longrightarrow> ParseUint_range n (c # cs) = Inl ErrSyntax"
  by simp

lemma ParseUint_range_ok_step:
  assumes "isdigit c" "10 * n + digit_value c < 2 ^ 64"
  shows "ParseUint_range n (c # cs) = ParseUint_range (10 * n + digit_value c) cs"
proof -
  let ?d = "digit_value c"
  have n: "\<not> maxUint64 div 10 + 1 \<le> n" using assms(2) by (simp add: maxUint64_def)
  have "n * 10 < 2 ^ 64" using assms(2) by simp
  then have w1: "wrap64 (n * 10) = n * 10" by (rule wrap64_small)
  have "n * 10 + ?d < 2 ^ 64" using assms(2) by simp
  then have w2: "wrap64 (n * 10 + ?d) = n * 10 + ?d" by (rule wrap64_small)
  have le: "\<not> maxUint64 < n * 10 + ?d" using assms(2) by (simp add: maxUint64_def)
  have d: "of_char c - 48 = ?d" by (simp add: digit_value_def)
  show ?thesis
    using assms(1) n le
    by (simp add: Let_def d w1 w2 mult.commute)
qed

lemma ParseUint_range_overflow_step:
  assumes "isdigit c" "2 ^ 64 \<le> 10 * n + digit_value c"
  shows "ParseUint_range n (c # cs) = Inl ErrRange"
proof (cases "maxUint64 div 10 + 1 \<le> n")
  case True
  then show ?thesis using assms(1) by simp
next
  case False
  let ?d = "digit_value c"
  have d9: "?d \<le> 9" using assms(1) by (rule isdigit_value)
  have small: "n * 10 < 2 ^ 64" using False by (simp add: maxUint64_def)
  then have w1: "wrap64 (n * 10) = n * 10" by (rule wrap64_small)
  have "n * 10 + ?d < 2 * 2 ^ 64" using small d9 by simp
  moreover have "2 ^ 64 \<le> n * 10 + ?d" using assms(2) by simp
  ultimately have w2: "wrap64 (n * 10 + ?d) = n * 10 + ?d - 2 ^ 64"
    by (simp add: wrap64_once)
  have lt: "n * 10 + ?d - 2 ^ 64 < n * 10" using d9 assms(2) by simp
  have d: "of_char c - 48 = ?d" by (simp add: digit_value_def)
  show ?thesis
    using assms(1) False lt
    by (simp add: Let_def d w1 w2)
qed

declare ParseUint_range.simps(2) [simp del]

lemma ParseUint_range_ok:
  assumes "list_all isdigit cs" "decimal_value n cs < 2 ^ 64"
  shows "ParseUint_range n cs = Inr (decimal_value n cs)"
  using assms
proof (induction cs arbitrary: n)
  case Nil
  show ?case by (simp add: decimal_value_def)
next
  case (Cons c cs)
  let ?d = "digit_value c"
  have d: "isdigit c" and rest: "list_all isdigit cs" using Cons.prems(1) by simp_all
  have v: "decimal_value (10 * n + ?d) cs < 2 ^ 64"
    using Cons.prems(2) by (simp only: decimal_value_Cons)
  have b: "10 * n + ?d < 2 ^ 64"
    using decimal_value_mono [of "10 * n + ?d" cs] v by linarith
  show ?case
    by (simp only: ParseUint_range_ok_step [OF d b] Cons.IH [OF rest v] decimal_value_Cons)
qed

lemma ParseUint_range_not_digits:
  "\<not> list_all isdigit cs \<Longrightarrow> \<exists>e. ParseUint_range n cs = Inl e"
proof (induction cs arbitrary: n)
  case Nil
  then show ?case by simp
next
  case (Cons c cs)
  show ?case
  proof (cases "isdigit c")
    case False
    then show ?thesis by (simp add: ParseUint_range_syntax_step)
  next
    case True
    with Cons.prems have rest: "\<not> list_all isdigit cs" by simp
    show ?thesis
    proof (cases "10 * n + digit_value c < 2 ^ 64")
      case small: True
      show ?thesis
        using Cons.IH [OF rest] by (simp only: ParseUint_range_ok_step [OF True small])
    next
      case False
      then have "2 ^ 64 \<le> 10 * n + digit_value c" by simp
      from ParseUint_range_overflow_step [OF True this] show ?thesis by blast
    qed
  qed
qed

lemma ParseUint_range_overflow:
  assumes "list_all isdigit cs" "2 ^ 64 \<le> decimal_value n cs" "n < 2 ^ 64"
  shows "ParseUint_range n cs = Inl ErrRange"
  using assms
proof (induction cs arbitrary: n)
  case Nil
  then show ?case by (simp add: decimal_value_def)
next
  case (Cons c cs)
  let ?d = "digit_value c"
  have d: "isdigit c" and rest: "list_all isdigit cs" using Cons.prems(1) by simp_all
  have v: "2 ^ 64 \<le> decimal_value (10 * n + ?d) cs"
    using Cons.prems(2) by (simp only: decimal_value_Cons)
  show ?case
  proof (cases "10 * n + ?d < 2 ^ 64")
    case True
    show ?thesis
      by (simp only: ParseUint_range_ok_step [OF d True] Cons.IH [OF rest v True])
  next
    case False
    then have "2 ^ 64 \<le> 10 * n + ?d" by simp
    then show ?thesis by (rule ParseUint_range_overflow_step [OF d])
  qed
qed

lemma sint64_of_int: "- (2 ^ 63) \<le> v \<Longrightarrow> v < 2 ^ 63 \<Longrightarrow> sint (word_of_int v :: 64 word) = v"
  by (simp add: sint_sbintrunc' signed_take_bit_int_eq_self)

lemma ParseInt_valid:
  assumes "int64_literal s = Some v"
  shows "ParseInt s = Inr (word_of_int v)"
proof -
  define ds where "ds = (if s \<noteq> [] \<and> (hd s = CHR ''-'' \<or> hd s = CHR ''+'') then tl s else s)"
  define neg where "neg = (s \<noteq> [] \<and> hd s = CHR ''-'')"
  define u where "u = decimal_value 0 ds"
  from assms have ds: "ds \<noteq> []" "list_all isdigit ds"
    and v: "v = (if neg then - int u else int u)"
    and range: "- (2 ^ 63) \<le> v" "v < 2 ^ 63"
    by (auto simp: int64_literal_def Let_def ds_def neg_def u_def split: if_splits)
  from ds(1) have s: "s \<noteq> []" by (auto simp: ds_def split: if_splits)
  have u64: "u < 2 ^ 64" using v range by (auto split: if_splits)
  have pu: "ParseUint ds = Inr u"
    using ds u64 by (simp add: ParseUint_def u_def ParseUint_range_ok)
  have sel: "(if hd s = CHR ''+'' then (False, tl s)
              else if hd s = CHR ''-'' then (True, tl s) else (False, s)) = (neg, ds)"
    using s by (auto simp: neg_def ds_def)
  have c1: "\<not> (\<not> neg \<and> u \<ge> 2 ^ 63)" using v range by (auto split: if_splits)
  have c2: "\<not> (neg \<and> u > 2 ^ 63)" using v range by (auto split: if_splits)
  have "ParseInt s = Inr (if neg then - word_of_nat u else word_of_nat u)"
    unfolding ParseInt_def sel using s pu c1 c2 by (simp add: Let_def)
  also have "(if neg then - word_of_nat u else word_of_nat u) = (word_of_int v :: 64 word)"
    using v by simp
  finally show ?thesis .
qed

lemma ParseInt_invalid:
  assumes "int64_literal s = None"
  shows "\<exists>e. ParseInt s = Inl e"
proof (cases "s = []")
  case True
  then show ?thesis by (simp add: ParseInt_def)
next
  case s: False
  define ds where "ds = (if s \<noteq> [] \<and> (hd s = CHR ''-'' \<or> hd s = CHR ''+'') then tl s else s)"
  define neg where "neg = (s \<noteq> [] \<and> hd s = CHR ''-'')"
  define u where "u = decimal_value 0 ds"
  have sel: "(if hd s = CHR ''+'' then (False, tl s)
              else if hd s = CHR ''-'' then (True, tl s) else (False, s)) = (neg, ds)"
    using s by (auto simp: neg_def ds_def)
  from assms have bad: "ds = [] \<or> \<not> list_all isdigit ds
      \<or> (neg \<and> 2 ^ 63 < u) \<or> (\<not> neg \<and> 2 ^ 63 \<le> u)"
    by (auto simp: int64_literal_def Let_def ds_def neg_def u_def split: if_splits)
  have max: "2 ^ 63 < maxUint64" by (simp add: maxUint64_def)
  consider (syn) "ParseUint ds = Inl ErrSyntax" | (rng) "ParseUint ds = Inl ErrRange"
    | (ok) "ParseUint ds = Inr u" "(neg \<and> 2 ^ 63 < u) \<or> (\<not> neg \<and> 2 ^ 63 \<le> u)"
  proof (cases "ds = []")
    case True
    then show ?thesis using syn by (simp add: ParseUint_def)
  next
    case ne: False
    show ?thesis
    proof (cases "list_all isdigit ds")
      case False
      from ParseUint_range_not_digits [OF this, of 0] obtain e where
        "ParseUint ds = Inl e" using ne by (auto simp: ParseUint_def)
      then show ?thesis using syn rng by (cases e) auto
    next
      case dg: True
      show ?thesis
      proof (cases "u < 2 ^ 64")
        case True
        then have "ParseUint ds = Inr u"
          using ne dg by (simp add: ParseUint_def u_def ParseUint_range_ok)
        then show ?thesis using ok bad ne dg by blast
      next
        case False
        then have "2 ^ 64 \<le> decimal_value 0 ds" by (simp add: u_def)
        from ParseUint_range_overflow [OF dg this] have "ParseUint ds = Inl ErrRange"
          using ne by (simp add: ParseUint_def)
        then show ?thesis using rng by blast
      qed
    qed
  qed
  then show ?thesis
  proof cases
    case syn
    then show ?thesis unfolding ParseInt_def sel using s by (simp add: Let_def)
  next
    case rng
    then show ?thesis unfolding ParseInt_def sel using s max by (auto simp add: Let_def)
  next
    case ok
    then show ?thesis unfolding ParseInt_def sel using s by (auto simp add: Let_def)
  qed
qed

text \<open>
  Claim C6. For a float token \<open>newLiteral\<close> returns a \<open>FloatNode\<close> holding the
  value that \<^verbatim>\<open>ParseFloat\<close> returns for the lexeme, and panics with the conversion error
  when \<^verbatim>\<open>ParseFloat\<close> fails. For an integer token whose lexeme denotes a signed 64-bit
  integer in base 10 it returns an \<open>IntegerNode\<close> with exactly that value; for every
  other lexeme it panics with the conversion error. No failed conversion yields a node.
\<close>

theorem newLiteral_numbers:
  "newLiteral pf p tokenFloat val =
     (case pf val of
        Inl err \<Rightarrow> Inl (NumError ''ParseFloat'' val err)
      | Inr x \<Rightarrow> Inr (FloatNode NodeFloat p x))
   \<and> (case int64_literal val of
        Some i \<Rightarrow> \<exists>v. newLiteral pf p tokenInteger val = Inr (IntegerNode NodeInteger p v)
                      \<and> sint v = i
      | None \<Rightarrow> \<exists>err. newLiteral pf p tokenInteger val = Inl (NumError ''ParseInt'' val err))"
proof
  show "newLiteral pf p tokenFloat val =
     (case pf val of
        Inl err \<Rightarrow> Inl (NumError ''ParseFloat'' val err)
      | Inr x \<Rightarrow> Inr (FloatNode NodeFloat p x))"
    by (simp add: newLiteral_def)
next
  show "case int64_literal val of
        Some i \<Rightarrow> \<exists>v. newLiteral pf p tokenInteger val = Inr (IntegerNode NodeInteger p v)
                      \<and> sint v = i
      | None \<Rightarrow> \<exists>err. newLiteral pf p tokenInteger val = Inl (NumError ''ParseInt'' val err)"
  proof (cases "int64_literal val")
    case None
    from ParseInt_invalid [OF this] obtain e where "ParseInt val = Inl e" by blast
    with None show ?thesis by (simp add: newLiteral_def)
  next
    case (Some i)
    then have r: "- (2 ^ 63) \<le> i" "i < 2 ^ 63"
      by (auto simp: int64_literal_def Let_def split: if_splits)
    from ParseInt_valid [OF Some] Some show ?thesis
      by (simp add: newLiteral_def sint64_of_int [OF r])
  qed
qed

text \<open>
  A stand-in for \<^verbatim>\<open>ParseFloat\<close> on a one-point type of floats: it accepts the lexeme
  \<^verbatim>\<open>1.5\<close> and rejects every other.
\<close>

definition ParseFloat_example :: "string \<Rightarrow> strconvErr + unit" where
  "ParseFloat_example s = (if s = ''1.5'' then Inr () else Inl ErrSyntax)"

theorem newLiteral_numbers_witness:
  "(\<exists>v. newLiteral ParseFloat_example 0 tokenInteger ''-42''
          = Inr (IntegerNode NodeInteger 0 v) \<and> sint v = - 42)
   \<and> (\<exists>err. newLiteral ParseFloat_example 0 tokenInteger ''12a''
          = Inl (NumError ''ParseInt'' ''12a'' err))
   \<and> (\<exists>err. newLiteral ParseFloat_example 0 tokenInteger ''9223372036854775808''
          = Inl (NumError ''ParseInt'' ''9223372036854775808'' err))
   \<and> newLiteral ParseFloat_example 0 tokenFloat ''1.5'' = Inr (FloatNode NodeFloat 0 ())
   \<and> newLiteral ParseFloat_example 0 tokenFloat ''1.5.'' = Inl (NumError ''ParseFloat'' ''1.5.'' ErrSyntax)"
proof -
  have 1: "int64_literal ''-42'' = Some (- 42)"
    by (simp add: int64_literal_def decimal_value_def digit_value_def isdigit_def)
  have 2: "int64_literal ''12a'' = None"
    by (simp add: int64_literal_def decimal_value_def digit_value_def isdigit_def)
  have 3: "int64_literal ''9223372036854775808'' = None"
    by (simp add: int64_literal_def decimal_value_def digit_value_def isdigit_def)
  have 4: "ParseFloat_example ''1.5'' = Inr ()" "ParseFloat_example ''1.5.'' = Inl ErrSyntax"
    by (simp_all add: ParseFloat_example_def)
  show ?thesis
    using newLiteral_numbers [of ParseFloat_example 0 "''-42''"]
      newLiteral_numbers [of ParseFloat_example 0 "''12a''"]
      newLiteral_numbers [of ParseFloat_example 0 "''9223372036854775808''"]
      newLiteral_numbers [of ParseFloat_example 0 "''1.5''"]
      newLiteral_numbers [of ParseFloat_example 0 "''1.5.''"]
    by (simp only: 1 2 3 4 option.case sum.case)
qed

text \<open>
  Claim C9. For a boolean token \<open>newLiteral\<close> always returns a \<open>BoolNode\<close>, never a
  panic; its value is true exactly when the lexeme is the string \<^verbatim>\<open>true\<close>.
\<close>

theorem newLiteral_bool: "newLiteral pf p tokenBool val = Inr (BoolNode NodeBool p (val = ''true''))"
  by (simp add: newLiteral_def)

section \<open>Properties of rendering and copying\<close>

lemma Fprint_range_rendered:
  "map (String ff) ms = map Inr ss \<Longrightarrow> Fprint_range ff b (map Some ms) = b @ concat ss"
proof (induction ms arbitrary: b ss)
  case Nil
  then show ?case by simp
next
  case (Cons m ms)
  then obtain s ss' where ss: "ss = s # ss'" "String ff m = Inr s"
    "map (String ff) ms = map Inr ss'"
    by (cases ss) auto
  with Cons.IH [of ss' "b @ s"] show ?case by simp
qed

text \<open>
  Claim C8. \<open>ListNode.String\<close> of an empty list is the empty string, and for a list
  of nodes \<open>ms\<close> that render as the strings \<open>ss\<close>, one for one, it is the
  concatenation of \<open>ss\<close> in the order of the list.
\<close>

theorem ListNode_String_concat:
  "String ff (ListNode t p []) = Inr []
   \<and> (map (String ff) ms = map Inr ss
      \<longrightarrow> String ff (ListNode t p (map Some ms)) = Inr (concat ss))"
  by (simp add: Fprint_range_rendered)

theorem ListNode_String_concat_witness:
  "String (\<lambda>x :: unit. ''0'') (ListNode NodeList 0
      [Some (TextNode NodeText 0 ''a''), Some (LookupNode NodeLookup 1 ''x'')]) = Inr ''ax''"
proof -
  have "map (String (\<lambda>x :: unit. ''0''))
          [TextNode NodeText 0 ''a'', LookupNode NodeLookup 1 ''x'']
          = map Inr [''a'', ''x'']"
    by simp
  with ListNode_String_concat
    [of "\<lambda>x :: unit. ''0''" NodeList 0
        "[TextNode NodeText 0 ''a'', LookupNode NodeLookup 1 ''x'']" "[''a'', ''x'']"]
  show ?thesis by simp
qed

text \<open>
  The block \<^verbatim>\<open>{% if x %}a{% endif %}\<close>: one conditional, guarded by the lookup of \<^verbatim>\<open>x\<close>,
  with the text \<^verbatim>\<open>a\<close> as its body, and no else clause.
\<close>

definition if_block_example :: "'f Node" where
  "if_block_example =
     IfBlockNode NodeIf 0
       [Some (ConditionalNode NodeIf 0
          (Some (LookupNode NodeLookup 6 ''x''))
          (Some (ListNode NodeList 11 [Some (TextNode NodeText 11 ''a'')])))]
       None"

text \<open>
  Claim C1 asks that a copy render as the original does. For an \<open>IfBlockNode\<close> it does
  not: \<^verbatim>\<open>Copy\<close> appends the copied conditionals to a slice that already holds one nil
  element per conditional, and \<^verbatim>\<open>String\<close> prints each of those as \<^verbatim>\<open><nil>\<close>. The block
  above renders as \<^verbatim>\<open>{% if x %}a{% endif %}\<close>, its copy as
  \<^verbatim>\<open><nil>{% if x %}a{% endif %}\<close>.
\<close>

theorem IfBlockNode_Copy_renders_nil:
  "String ff if_block_example = Inr ''{% if x %}a{% endif %}''
   \<and> Copy if_block_example =
       Inr (IfBlockNode NodeIf 0
         [None,
          Some (ConditionalNode NodeIf 0
            (Some (LookupNode NodeLookup 6 ''x''))
            (Some (ListNode NodeList 11 [Some (TextNode NodeText 11 ''a'')])))]
         None)
   \<and> String ff
       (IfBlockNode NodeIf 0
         [None,
          Some (ConditionalNode NodeIf 0
            (Some (LookupNode NodeLookup 6 ''x''))
            (Some (ListNode NodeList 11 [Some (TextNode NodeText 11 ''a'')])))]
         None)
      = Inr ''<nil>{% if x %}a{% endif %}''"
  by (simp add: if_block_example_def newLookup_def)

section \<open>Nodes in the store\<close>

text \<open>
  Whether a copy shares nodes with its original cannot be read off the trees: it is a
  matter of which pointers are equal. In this second model a node is an object in a
  store, the fields of interface type hold addresses (\<open>None\<close> for nil), and \<^verbatim>\<open>&T{...}\<close>
  allocates. The store is the list of all objects allocated so far and the address of
  an object is its index, so a new object gets an address that no earlier object has.
\<close>

type_synonym addr = nat

datatype 'f NodeObj =
    ListNode_obj NodeType Pos "addr option list"
  | TextNode_obj NodeType Pos string
  | VarNode_obj NodeType Pos "addr option"
  | LookupNode_obj NodeType Pos string
  | StringNode_obj NodeType Pos string
  | BoolNode_obj NodeType Pos bool
  | IntegerNode_obj NodeType Pos "64 word"
  | FloatNode_obj NodeType Pos 'f
  | UnaryNode_obj NodeType Pos "addr option" item
  | AddExpr_obj NodeType Pos "addr option" "addr option" item
  | MulExpr_obj NodeType Pos "addr option" "addr option" item
  | MapExpr_obj NodeType Pos "addr option list"
  | MapElem_obj NodeType Pos "addr option" "addr option"
  | IndexExpr_obj NodeType Pos "addr option" "addr option"
  | SetNode_obj NodeType Pos "addr option" "addr option"
  | ConditionalNode_obj NodeType Pos "addr option" "addr option"
  | IfBlockNode_obj NodeType Pos "addr option list" "addr option"
  | ForNode_obj NodeType Pos "addr option" "addr option" "addr option"
  | BlockNode_obj NodeType Pos string "addr option"

type_synonym 'f store = "'f NodeObj list"

definition new_obj :: "'f store \<Rightarrow> 'f NodeObj \<Rightarrow> 'f store \<times> addr" where
  "new_obj h c = (h @ [c], length h)"

text \<open>Reading through a reference: a nil reference panics.\<close>

definition load :: "'f store \<Rightarrow> addr option \<Rightarrow> panic + 'f NodeObj" where
  "load h r =
     (case r of
        None \<Rightarrow> Inl NilPointerDereference
      | Some a \<Rightarrow> if a < length h then Inr (h ! a) else Inl NilPointerDereference)"

definition Position_obj :: "'f NodeObj \<Rightarrow> Pos" where
  "Position_obj c =
     (case c of
        ListNode_obj t p ns \<Rightarrow> p
      | TextNode_obj t p txt \<Rightarrow> p
      | VarNode_obj t p n \<Rightarrow> p
      | LookupNode_obj t p nm \<Rightarrow> p
      | StringNode_obj t p v \<Rightarrow> p
      | BoolNode_obj t p v \<Rightarrow> p
      | IntegerNode_obj t p v \<Rightarrow> p
      | FloatNode_obj t p v \<Rightarrow> p
      | UnaryNode_obj t p v u \<Rightarrow> p
      | AddExpr_obj t p l r opr \<Rightarrow> p
      | MulExpr_obj t p l r opr \<Rightarrow> p
      | MapExpr_obj t p es \<Rightarrow> p
      | MapElem_obj t p k v \<Rightarrow> p
      | IndexExpr_obj t p v i \<Rightarrow> p
      | SetNode_obj t p l r \<Rightarrow> p
      | ConditionalNode_obj t p g b \<Rightarrow> p
      | IfBlockNode_obj t p cs e \<Rightarrow> p
      | ForNode_obj t p f i b \<Rightarrow> p
      | BlockNode_obj t p nm b \<Rightarrow> p)"

text \<open>
  An operation on the store either runs out of fuel (\<open>None\<close>), panics, or returns a new
  store and a value. \<open>and_then\<close> chains two operations.
\<close>

type_synonym ('f, 'a) result = "(panic + 'f store \<times> 'a) option"

definition and_then ::
  "('f, 'a) result \<Rightarrow> ('f store \<Rightarrow> 'a \<Rightarrow> ('f, 'b) result) \<Rightarrow> ('f, 'b) result" where
  "and_then m f =
     (case m of
        None \<Rightarrow> None
      | Some (Inl e) \<Rightarrow> Some (Inl e)
      | Some (Inr (h, x)) \<Rightarrow> f h x)"

definition returns :: "'f store \<Rightarrow> 'a \<Rightarrow> ('f, 'a) result" where
  "returns h x = Some (Inr (h, x))"

definition panics :: "panic \<Rightarrow> ('f, 'a) result" where
  "panics e = Some (Inl e)"

text \<open>
  Assignments to fields of the object at address \<open>n\<close>: the \<^verbatim>\<open>append\<close> methods and the
  field assignments in the \<^verbatim>\<open>Copy\<close> methods of the block nodes.
\<close>

definition append_obj :: "'f store \<Rightarrow> addr \<Rightarrow> addr \<Rightarrow> 'f store" where
  "append_obj h n c =
     (case h ! n of
        ListNode_obj t p ns \<Rightarrow> h[n := ListNode_obj t p (ns @ [Some c])]
      | MapExpr_obj t p es \<Rightarrow> h[n := MapExpr_obj t p (es @ [Some c])]
      | IfBlockNode_obj t p cs e \<Rightarrow> h[n := IfBlockNode_obj t p (cs @ [Some c]) e]
      | _ \<Rightarrow> h)"

definition set_Conditionals :: "'f store \<Rightarrow> addr \<Rightarrow> addr option list \<Rightarrow> 'f store" where
  "set_Conditionals h n cs =
     (case h ! n of
        IfBlockNode_obj t p cs0 e \<Rightarrow> h[n := IfBlockNode_obj t p cs e]
      | _ \<Rightarrow> h)"

definition set_Else :: "'f store \<Rightarrow> addr \<Rightarrow> addr option \<Rightarrow> 'f store" where
  "set_Else h n e =
     (case h ! n of
        IfBlockNode_obj t p cs e0 \<Rightarrow> h[n := IfBlockNode_obj t p cs e]
      | _ \<Rightarrow> h)"

definition set_Guard :: "'f store \<Rightarrow> addr \<Rightarrow> addr option \<Rightarrow> 'f store" where
  "set_Guard h n g =
     (case h ! n of
        ConditionalNode_obj t p g0 b \<Rightarrow> h[n := ConditionalNode_obj t p g b]
      | _ \<Rightarrow> h)"

definition set_Body :: "'f store \<Rightarrow> addr \<Rightarrow> addr option \<Rightarrow> 'f store" where
  "set_Body h n b =
     (case h ! n of
        ConditionalNode_obj t p g b0 \<Rightarrow> h[n := ConditionalNode_obj t p g b]
      | ForNode_obj t p f i b0 \<Rightarrow> h[n := ForNode_obj t p f i b]
      | _ \<Rightarrow> h)"

definition set_ForExpr :: "'f store \<Rightarrow> addr \<Rightarrow> addr option \<Rightarrow> 'f store" where
  "set_ForExpr h n f =
     (case h ! n of
        ForNode_obj t p f0 i b \<Rightarrow> h[n := ForNode_obj t p f i b]
      | _ \<Rightarrow> h)"

definition set_InExpr :: "'f store \<Rightarrow> addr \<Rightarrow> addr option \<Rightarrow> 'f store" where
  "set_InExpr h n i =
     (case h ! n of
        ForNode_obj t p f i0 b \<Rightarrow> h[n := ForNode_obj t p f i b]
      | _ \<Rightarrow> h)"

text \<open>
  The element loop of \<^verbatim>\<open>CopyList\<close>, \<^verbatim>\<open>MapExpr.Copy\<close> and \<^verbatim>\<open>IfBlockNode.Copy\<close>: each element is
  copied by \<open>copy\<close> and the copy is appended to the object at \<open>n\<close>; with \<open>assert\<close>
  the copy must be a \<^verbatim>\<open>*MapElem\<close>.
\<close>

fun Copy_range_obj ::
  "('f store \<Rightarrow> addr option \<Rightarrow> ('f, addr) result) \<Rightarrow> bool \<Rightarrow> 'f store \<Rightarrow> addr
     \<Rightarrow> addr option list \<Rightarrow> ('f, unit) result" where
  "Copy_range_obj copy assert h n [] = returns h ()"
| "Copy_range_obj copy assert h n (e # es) =
     and_then (copy h e) (\<lambda>h1 c.
       if assert \<and> \<not> (case h1 ! c of MapElem_obj t p k v \<Rightarrow> True | _ \<Rightarrow> False)
       then panics TypeAssertionFailed
       else Copy_range_obj copy assert (append_obj h1 n c) n es)"

definition alloc :: "'f store \<Rightarrow> 'f NodeObj \<Rightarrow> ('f, addr) result" where
  "alloc h c = (case new_obj h c of (h1, n) \<Rightarrow> returns h1 n)"

definition alloc_at_Position ::
  "'f store \<Rightarrow> addr option \<Rightarrow> (Pos \<Rightarrow> 'f NodeObj) \<Rightarrow> ('f, addr) result" where
  "alloc_at_Position h l mk =
     (case load h l of
        Inl e \<Rightarrow> panics e
      | Inr c \<Rightarrow> alloc h (mk (Position_obj c)))"

text \<open>
  The \<^verbatim>\<open>Copy\<close> methods, dispatched on the object that the receiver points to. \<open>copy\<close>
  is what a nested call \<^verbatim>\<open>x.Copy()\<close> does. The cases follow the methods statement by
  statement: \<^verbatim>\<open>VarNode.Copy\<close> is \<^verbatim>\<open>&VarNode{v.NodeType, v.Pos, v.Node}\<close>, which allocates
  one object holding the reference \<^verbatim>\<open>v.Node\<close> itself, whereas \<^verbatim>\<open>SetNode.Copy\<close> copies
  both of its children before it allocates.
\<close>

definition Copy_method ::
  "('f store \<Rightarrow> addr option \<Rightarrow> ('f, addr) result) \<Rightarrow> 'f store \<Rightarrow> addr option
     \<Rightarrow> ('f, addr) result" where
  "Copy_method copy h r =
     (case load h r of
        Inl e \<Rightarrow> panics e
      | Inr c \<Rightarrow>
          (case c of
             ListNode_obj t p ns \<Rightarrow>
               and_then (alloc h (ListNode_obj NodeList p [])) (\<lambda>h1 n.
               and_then (Copy_range_obj copy False h1 n ns) (\<lambda>h2 u.
               returns h2 n))
           | TextNode_obj t p txt \<Rightarrow> alloc h (TextNode_obj NodeText p ([] @ txt))
           | VarNode_obj t p v \<Rightarrow> alloc h (VarNode_obj t p v)
           | LookupNode_obj t p nm \<Rightarrow> alloc h (LookupNode_obj NodeLookup p nm)
           | StringNode_obj t p v \<Rightarrow> alloc h (StringNode_obj t p v)
           | BoolNode_obj t p v \<Rightarrow> alloc h (BoolNode_obj t p v)
           | IntegerNode_obj t p v \<Rightarrow> alloc h (IntegerNode_obj t p v)
           | FloatNode_obj t p v \<Rightarrow> alloc h (FloatNode_obj t p v)
           | UnaryNode_obj t p v u \<Rightarrow> alloc h (UnaryNode_obj t p v u)
           | AddExpr_obj t p l r opr \<Rightarrow>
               alloc_at_Position h l (\<lambda>p'. AddExpr_obj NodeAdd p' l r opr)
           | MulExpr_obj t p l r opr \<Rightarrow>
               alloc_at_Position h l (\<lambda>p'. MulExpr_obj NodeMul p' l r opr)
           | MapExpr_obj t p es \<Rightarrow>
               and_then (alloc h (MapExpr_obj NodeMapExpr p [])) (\<lambda>h1 n.
               and_then (Copy_range_obj copy True h1 n es) (\<lambda>h2 u.
               returns h2 n))
           | MapElem_obj t p k v \<Rightarrow>
               alloc_at_Position h k (\<lambda>p'. MapElem_obj NodeMapElem p' k v)
           | IndexExpr_obj t p v i \<Rightarrow>
               alloc_at_Position h v (\<lambda>p'. IndexExpr_obj NodeIndexExpr p' v i)
           | SetNode_obj t p l r \<Rightarrow>
               and_then (copy h l) (\<lambda>h1 l'.
               and_then (copy h1 r) (\<lambda>h2 r'.
               alloc h2 (SetNode_obj NodeSet p (Some l') (Some r'))))
           | ConditionalNode_obj t p g b \<Rightarrow>
               and_then (alloc h (ConditionalNode_obj t p None None)) (\<lambda>h1 n.
               and_then (copy h1 g) (\<lambda>h2 g'.
               and_then (copy (set_Guard h2 n (Some g')) b) (\<lambda>h3 b'.
               returns (set_Body h3 n (Some b')) n)))
           | IfBlockNode_obj t p cs e \<Rightarrow>
               and_then (alloc h (IfBlockNode_obj NodeIf p [] None)) (\<lambda>h1 n.
               and_then (Copy_range_obj copy False
                           (set_Conditionals h1 n (replicate (length cs) None)) n cs) (\<lambda>h2 u.
               if e \<noteq> None then
                 and_then (copy h2 e) (\<lambda>h3 e'. returns (set_Else h3 n (Some e')) n)
               else returns h2 n))
           | ForNode_obj t p f i b \<Rightarrow>
               and_then (alloc h (ForNode_obj NodeFor p None None None)) (\<lambda>h1 n.
               and_then (copy h1 f) (\<lambda>h2 f'.
               and_then (copy (set_ForExpr h2 n (Some f')) i) (\<lambda>h3 i'.
               and_then (copy (set_InExpr h3 n (Some i')) b) (\<lambda>h4 b'.
               returns (set_Body h4 n (Some b')) n))))
           | BlockNode_obj t p nm b \<Rightarrow>
               and_then (copy h b) (\<lambda>h1 b'.
               alloc h1 (BlockNode_obj t p nm (Some b')))))"

text \<open>
  The methods call each other recursively through the store, which may be cyclic;
  the recursion is bounded by fuel, one unit for each nested method call.
\<close>

primrec Copy_obj :: "nat \<Rightarrow> 'f store \<Rightarrow> addr option \<Rightarrow> ('f, addr) result" where
  "Copy_obj 0 h r = None"
| "Copy_obj (Suc k) h r = Copy_method (Copy_obj k) h r"

text \<open>
  Claim C2 asks that a copy share no node with the original. The \<^verbatim>\<open>Copy\<close> methods of
  \<^verbatim>\<open>VarNode\<close>, \<^verbatim>\<open>AddExpr\<close>, \<^verbatim>\<open>MulExpr\<close> and \<^verbatim>\<open>MapElem\<close> allocate one new object and store
  the references of the original in it. In each of the four stores below the node at
  address \<open>0\<close> is copied; the store grows by exactly one object, the copy, and the
  children of the copy are the objects at the addresses \<open>1\<close> and \<open>2\<close>, which are the
  children of the original. An assignment through a child reference of the copy is
  therefore an assignment to a child of the original.
\<close>

theorem Copy_obj_shares_children:
  "Copy_obj 1 [VarNode_obj NodeVar 0 (Some 1), LookupNode_obj NodeLookup 3 ''x''] (Some 0)
     = Some (Inr ([VarNode_obj NodeVar 0 (Some 1), LookupNode_obj NodeLookup 3 ''x'',
                   VarNode_obj NodeVar 0 (Some 1)], 2))
   \<and> Copy_obj 1 [AddExpr_obj NodeAdd 0 (Some 1) (Some 2) \<lparr>ityp = tokenAdd, ipos = 2, ival = ''+''\<rparr>,
                 LookupNode_obj NodeLookup 0 ''x'', LookupNode_obj NodeLookup 4 ''y''] (Some 0)
     = Some (Inr ([AddExpr_obj NodeAdd 0 (Some 1) (Some 2) \<lparr>ityp = tokenAdd, ipos = 2, ival = ''+''\<rparr>,
                   LookupNode_obj NodeLookup 0 ''x'', LookupNode_obj NodeLookup 4 ''y'',
                   AddExpr_obj NodeAdd 0 (Some 1) (Some 2) \<lparr>ityp = tokenAdd, ipos = 2, ival = ''+''\<rparr>], 3))
   \<and> Copy_obj 1 [MulExpr_obj NodeMul 0 (Some 1) (Some 2) \<lparr>ityp = tokenMul, ipos = 2, ival = ''*''\<rparr>,
                 LookupNode_obj NodeLookup 0 ''x'', LookupNode_obj NodeLookup 4 ''y''] (Some 0)
     = Some (Inr ([MulExpr_obj NodeMul 0 (Some 1) (Some 2) \<lparr>ityp = tokenMul, ipos = 2, ival = ''*''\<rparr>,
                   LookupNode_obj NodeLookup 0 ''x'', LookupNode_obj NodeLookup 4 ''y'',
                   MulExpr_obj NodeMul 0 (Some 1) (Some 2) \<lparr>ityp = tokenMul, ipos = 2, ival = ''*''\<rparr>], 3))
   \<and> Copy_obj 1 [MapElem_obj NodeMapElem 1 (Some 1) (Some 2),
                 StringNode_obj NodeString 1 ''k'', LookupNode_obj NodeLookup 6 ''y''] (Some 0)
     = Some (Inr ([MapElem_obj NodeMapElem 1 (Some 1) (Some 2),
                   StringNode_obj NodeString 1 ''k'', LookupNode_obj NodeLookup 6 ''y'',
                   MapElem_obj NodeMapElem 1 (Some 1) (Some 2)], 3))"
  by (simp add: Copy_method_def load_def alloc_def alloc_at_Position_def new_obj_def
      returns_def panics_def Position_obj_def)

text \<open>
  For comparison, \<^verbatim>\<open>SetNode.Copy\<close> does copy its children: the copy at address \<open>5\<close>
  points to the new objects at \<open>3\<close> and \<open>4\<close>.
\<close>

lemma Copy_obj_SetNode_fresh_children:
  "Copy_obj 2 [SetNode_obj NodeSet 0 (Some 1) (Some 2),
               LookupNode_obj NodeLookup 7 ''x'', LookupNode_obj NodeLookup 11 ''y''] (Some 0)
     = Some (Inr ([SetNode_obj NodeSet 0 (Some 1) (Some 2),
                   LookupNode_obj NodeLookup 7 ''x'', LookupNode_obj NodeLookup 11 ''y'',
                   LookupNode_obj NodeLookup 7 ''x'', LookupNode_obj NodeLookup 11 ''y'',
                   SetNode_obj NodeSet 0 (Some 3) (Some 4)], 5))"
  by (simp add: numeral_2_eq_2 Copy_method_def load_def alloc_def new_obj_def returns_def
      panics_def and_then_def)

section \<open>The context stack\<close>

text \<open>
  Modelled from the spec: the types \<^verbatim>\<open>Context\<close> and \<^verbatim>\<open>contextStack\<close> with \<^verbatim>\<open>NewContext\<close>,
  \<^verbatim>\<open>push\<close> and \<^verbatim>\<open>lookup\<close>, of which the sources hold only the tests. A context wraps
  one host value, record-like (named fields) or map-like (string keys);
  \<open>Context_lookup\<close> finds the field or the entry with the given name, and a result
  \<^verbatim>\<open>(value, found)\<close> is \<open>Some value\<close> when found and \<open>None\<close> when not.
\<close>

datatype 'v Context =
    RecordContext "(string \<times> 'v) list"
  | MapContext "string \<rightharpoonup> 'v"

fun Context_lookup :: "'v Context \<Rightarrow> string \<Rightarrow> 'v option" where
  "Context_lookup (RecordContext fs) nm = map_of fs nm"
| "Context_lookup (MapContext m) nm = m nm"

text \<open>
  Modelled from the spec: the context stack is the sequence of its layers in pushing
  order; \<^verbatim>\<open>push\<close> appends, and \<^verbatim>\<open>lookup\<close> scans from the layer pushed last back to the
  layer pushed first and returns the first match. \<open>lookup_from stk i nm\<close> is that
  scan with the layers at the indices below \<open>i\<close> still to visit.
\<close>

type_synonym 'v contextStack = "'v Context list"

definition push :: "'v contextStack \<Rightarrow> 'v Context \<Rightarrow> 'v contextStack" where
  "push stk c = stk @ [c]"

fun lookup_from :: "'v contextStack \<Rightarrow> nat \<Rightarrow> string \<Rightarrow> 'v option" where
  "lookup_from stk 0 nm = None"
| "lookup_from stk (Suc i) nm =
     (case Context_lookup (stk ! i) nm of
        Some v \<Rightarrow> Some v
      | None \<Rightarrow> lookup_from stk i nm)"

definition lookup :: "'v contextStack \<Rightarrow> string \<Rightarrow> 'v option" where
  "lookup stk nm = lookup_from stk (length stk) nm"

lemma lookup_from_Some_iff:
  "n \<le> length stk \<Longrightarrow>
   lookup_from stk n nm = Some v \<longleftrightarrow>
     (\<exists>i<n. Context_lookup (stk ! i) nm = Some v
        \<and> (\<forall>j. i < j \<and> j < n \<longrightarrow> Context_lookup (stk ! j) nm = None))"
proof (induction n)
  case 0
  show ?case by simp
next
  case (Suc n)
  show ?case
  proof (cases "Context_lookup (stk ! n) nm")
    case None
    have "(\<exists>i<Suc n. Context_lookup (stk ! i) nm = Some v
             \<and> (\<forall>j. i < j \<and> j < Suc n \<longrightarrow> Context_lookup (stk ! j) nm = None))
          \<longleftrightarrow> (\<exists>i<n. Context_lookup (stk ! i) nm = Some v
             \<and> (\<forall>j. i < j \<and> j < n \<longrightarrow> Context_lookup (stk ! j) nm = None))"
      (is "?L \<longleftrightarrow> ?R")
    proof
      assume ?L
      then obtain i where i: "i < Suc n" "Context_lookup (stk ! i) nm = Some v"
        "\<forall>j. i < j \<and> j < Suc n \<longrightarrow> Context_lookup (stk ! j) nm = None" by blast
      from i(2) None have "i \<noteq> n" by auto
      with i(1) have "i < n" by simp
      with i(2,3) show ?R by auto
    next
      assume ?R
      then obtain i where i: "i < n" "Context_lookup (stk ! i) nm = Some v"
        "\<forall>j. i < j \<and> j < n \<longrightarrow> Context_lookup (stk ! j) nm = None" by blast
      have "\<forall>j. i < j \<and> j < Suc n \<longrightarrow> Context_lookup (stk ! j) nm = None"
        using i(3) None by (auto simp: less_Suc_eq)
      with i(1,2) show ?L by (intro exI [of _ i]) simp
    qed
    with Suc None show ?thesis by simp
  next
    case (Some w)
    have "(\<exists>i<Suc n. Context_lookup (stk ! i) nm = Some v
             \<and> (\<forall>j. i < j \<and> j < Suc n \<longrightarrow> Context_lookup (stk ! j) nm = None))
          \<longleftrightarrow> w = v" (is "?L \<longleftrightarrow> _")
    proof
      assume ?L
      then obtain i where i: "i < Suc n" "Context_lookup (stk ! i) nm = Some v"
        "\<forall>j. i < j \<and> j < Suc n \<longrightarrow> Context_lookup (stk ! j) nm = None" by blast
      have "i = n"
      proof (rule ccontr)
        assume "i \<noteq> n"
        with i(1) have "i < n" by simp
        with i(3) have "Context_lookup (stk ! n) nm = None" by simp
        with Some show False by simp
      qed
      with i(2) Some show "w = v" by simp
    next
      assume "w = v"
      with Some show ?L by (intro exI [of _ n]) auto
    qed
    with Some show ?thesis by simp
  qed
qed

lemma lookup_from_None_iff:
  "lookup_from stk n nm = None \<longleftrightarrow> (\<forall>i<n. Context_lookup (stk ! i) nm = None)"
  by (induction n) (auto simp: less_Suc_eq split: option.splits)

lemma lookup_from_append:
  "n \<le> length stk \<Longrightarrow> lookup_from (stk @ cs) n nm = lookup_from stk n nm"
  by (induction n) (auto simp: nth_append split: option.splits)

text \<open>
  Claim C4. \<open>lookup\<close> finds a value exactly when some layer holds the name, and the
  value it returns is that of the layer pushed last among those that hold it: a layer
  pushed later shadows the earlier ones. When no layer holds the name the result is
  not-found. After a push, the new layer is asked first and the older layers only if
  it does not hold the name.
\<close>

theorem contextStack_lookup_shadowing:
  "(lookup stk nm = Some v \<longleftrightarrow>
      (\<exists>i<length stk. Context_lookup (stk ! i) nm = Some v
         \<and> (\<forall>j. i < j \<and> j < length stk \<longrightarrow> Context_lookup (stk ! j) nm = None)))
   \<and> (lookup stk nm = None \<longleftrightarrow> (\<forall>i<length stk. Context_lookup (stk ! i) nm = None))
   \<and> lookup (push stk c) nm =
       (case Context_lookup c nm of Some w \<Rightarrow> Some w | None \<Rightarrow> lookup stk nm)"
proof (intro conjI)
  show "lookup stk nm = Some v \<longleftrightarrow>
      (\<exists>i<length stk. Context_lookup (stk ! i) nm = Some v
         \<and> (\<forall>j. i < j \<and> j < length stk \<longrightarrow> Context_lookup (stk ! j) nm = None))"
    unfolding lookup_def by (rule lookup_from_Some_iff) simp
  show "lookup stk nm = None \<longleftrightarrow> (\<forall>i<length stk. Context_lookup (stk ! i) nm = None)"
    unfolding lookup_def by (rule lookup_from_None_iff)
  show "lookup (push stk c) nm =
       (case Context_lookup c nm of Some w \<Rightarrow> Some w | None \<Rightarrow> lookup stk nm)"
    by (simp add: lookup_def push_def lookup_from_append split: option.splits)
qed

text \<open>
  The layers of the test \<^verbatim>\<open>TestMapMulti\<close>, with an entry for \<^verbatim>\<open>Age\<close> added to the second
  layer so that it shadows the one of the first.
\<close>

definition layer_A :: "string Context" where
  "layer_A = MapContext [''name'' \<mapsto> ''Jason'', ''Age'' \<mapsto> ''32'']"

definition layer_B :: "string Context" where
  "layer_B = MapContext [''Foo'' \<mapsto> ''1'', ''Age'' \<mapsto> ''33'']"

theorem contextStack_lookup_shadowing_witness:
  "lookup (push (push [] layer_A) layer_B) ''name'' = Some ''Jason''
   \<and> lookup (push (push [] layer_A) layer_B) ''Age'' = Some ''33''
   \<and> lookup (push (push [] layer_A) layer_B) ''Foo'' = Some ''1''
   \<and> lookup (push (push [] layer_A) layer_B) ''Bar'' = None"
proof -
  let ?stk = "push (push [] layer_A) layer_B"
  have len: "length ?stk = 2" and at: "?stk ! 0 = layer_A" "?stk ! 1 = layer_B"
    by (simp_all add: push_def)
  have 1: "lookup ?stk ''name'' = Some ''Jason''"
  proof -
    have "\<exists>i<length ?stk. Context_lookup (?stk ! i) ''name'' = Some ''Jason''
         \<and> (\<forall>j. i < j \<and> j < length ?stk \<longrightarrow> Context_lookup (?stk ! j) ''name'' = None)"
      by (rule exI [of _ 0]) (auto simp: push_def layer_A_def layer_B_def less_Suc_eq nth_Cons')
    then show ?thesis using contextStack_lookup_shadowing [of ?stk "''name''" "''Jason''"] by blast
  qed
  have 2: "lookup ?stk ''Age'' = Some ''33''"
  proof -
    have "\<exists>i<length ?stk. Context_lookup (?stk ! i) ''Age'' = Some ''33''
         \<and> (\<forall>j. i < j \<and> j < length ?stk \<longrightarrow> Context_lookup (?stk ! j) ''Age'' = None)"
      by (rule exI [of _ 1]) (auto simp: push_def layer_A_def layer_B_def)
    then show ?thesis using contextStack_lookup_shadowing [of ?stk "''Age''" "''33''"] by blast
  qed
  have 3: "lookup ?stk ''Foo'' = Some ''1''"
    using contextStack_lookup_shadowing [of "push [] layer_A" "''Foo''" _ layer_B] by (simp add: layer_B_def)
  have 4: "lookup ?stk ''Bar'' = None"
  proof -
    have "\<forall>i<length ?stk. Context_lookup (?stk ! i) ''Bar'' = None"
      by (auto simp: push_def layer_A_def layer_B_def less_Suc_eq nth_Cons')
    then show ?thesis using contextStack_lookup_shadowing [of ?stk "''Bar''"] by blast
  qed
  from 1 2 3 4 show ?thesis by blast
qed

end
